theory Spec2Isabelle
  imports Complex_Main "HOL-Library.Sublist" "HOL-Library.Char_ord" "HOL-Library.List_Lexorder"
    "HOL-Library.Multiset" "HOL-Library.AList" "HOL-Library.Monad_Syntax"
begin

section \<open>Strings\<close>

text \<open>
  Python strings are modelled as \<^typ>\<open>string\<close>, the UTF-8 bytes of the text. Comparing
  byte lists lexicographically orders them as Python orders the strings by code point,
  and an ASCII pattern occurs in the bytes exactly where it occurs in the text.
\<close>

text \<open>\<^verbatim>\<open>sub in s\<close> on strings: \<open>sub\<close> occurs as a contiguous piece of \<open>s\<close>.\<close>

definition str_in :: "string \<Rightarrow> string \<Rightarrow> bool" where
  "str_in sub s = sublist sub s"

text \<open>
  \<^verbatim>\<open>s.replace(old, new)\<close>: every non-overlapping occurrence of \<open>old\<close>, found from the left,
  is replaced. Every call of the program has a non-empty \<open>old\<close>; Python's special
  treatment of an empty \<open>old\<close> is not modelled (the text is then returned as it is).
\<close>

fun py_replace :: "string \<Rightarrow> string \<Rightarrow> string \<Rightarrow> string" where
  "py_replace old new [] = []"
| "py_replace old new (c # cs) =
     (if old \<noteq> [] \<and> prefix old (c # cs)
      then new @ py_replace old new (drop (length old - 1) cs)
      else c # py_replace old new cs)"

text \<open>
  The characters \<^verbatim>\<open>str.strip()\<close> removes, as UTF-8 byte sequences: the ASCII blanks
  and separators, U+0085, U+00A0, U+1680, U+2000 to U+200A, U+2028, U+2029, U+202F, U+205F
  and U+3000.
\<close>

definition whitespace :: "string list" where
  "whitespace =
     [[CHR 0x09], [CHR 0x0A], [CHR 0x0B], [CHR 0x0C], [CHR 0x0D],
      [CHR 0x1C], [CHR 0x1D], [CHR 0x1E], [CHR 0x1F], [CHR 0x20],
      [CHR 0xC2, CHR 0x85], [CHR 0xC2, CHR 0xA0], [CHR 0xE1, CHR 0x9A, CHR 0x80],
      [CHR 0xE2, CHR 0x80, CHR 0x80], [CHR 0xE2, CHR 0x80, CHR 0x81],
      [CHR 0xE2, CHR 0x80, CHR 0x82], [CHR 0xE2, CHR 0x80, CHR 0x83],
      [CHR 0xE2, CHR 0x80, CHR 0x84], [CHR 0xE2, CHR 0x80, CHR 0x85],
      [CHR 0xE2, CHR 0x80, CHR 0x86], [CHR 0xE2, CHR 0x80, CHR 0x87],
      [CHR 0xE2, CHR 0x80, CHR 0x88], [CHR 0xE2, CHR 0x80, CHR 0x89],
      [CHR 0xE2, CHR 0x80, CHR 0x8A], [CHR 0xE2, CHR 0x80, CHR 0xA8],
      [CHR 0xE2, CHR 0x80, CHR 0xA9], [CHR 0xE2, CHR 0x80, CHR 0xAF],
      [CHR 0xE2, CHR 0x81, CHR 0x9F], [CHR 0xE3, CHR 0x80, CHR 0x80]]"

text \<open>Removes, from the front, every leading occurrence of one of the sequences \<open>ws\<close>.\<close>

fun drop_leading :: "string list \<Rightarrow> string \<Rightarrow> string" where
  "drop_leading ws [] = []"
| "drop_leading ws (c # cs) =
     (case find (\<lambda>w. prefix w (c # cs)) ws of
        None \<Rightarrow> c # cs
      | Some w \<Rightarrow> drop_leading ws (drop (length w - 1) cs))"

text \<open>\<^verbatim>\<open>s.strip()\<close>: leading and trailing whitespace is removed.\<close>

definition py_strip :: "string \<Rightarrow> string" where
  "py_strip s = rev (drop_leading (map rev whitespace) (rev (drop_leading whitespace s)))"

text \<open>
  \<^verbatim>\<open>s.upper()\<close> on the ASCII letters; other bytes are kept. (Python also maps
  letters outside ASCII; ticker ids are ASCII.)
\<close>

definition py_upper :: "string \<Rightarrow> string" where
  "py_upper s =
     map (\<lambda>c. if CHR ''a'' \<le> c \<and> c \<le> CHR ''z'' then char_of (of_char c - (32 :: nat)) else c) s"

text \<open>\<^verbatim>\<open>s.strip(chars)\<close>: leading and trailing characters of \<open>chars\<close> are removed.\<close>

definition py_strip_chars :: "string \<Rightarrow> string \<Rightarrow> string" where
  "py_strip_chars chars s =
     rev (dropWhile (\<lambda>c. c \<in> set chars) (rev (dropWhile (\<lambda>c. c \<in> set chars) s)))"

text \<open>The decimal digits of a natural number.\<close>

definition digit_char :: "nat \<Rightarrow> char" where
  "digit_char d = char_of (48 + d)"

fun str_nat :: "nat \<Rightarrow> string" where
  "str_nat n = (if n < 10 then [digit_char n] else str_nat (n div 10) @ [digit_char (n mod 10)])"

section \<open>Model catalog builder (\<^verbatim>\<open>get_best_models\<close>)\<close>

text \<open>
  One entry of \<^verbatim>\<open>genai.list_models()\<close>: the fields the program reads
  (\<^verbatim>\<open>m.name\<close> and \<^verbatim>\<open>m.supported_generation_methods\<close>).
\<close>

record model_info =
  model_name :: string
  supported_generation_methods :: "string list"

definition defaults :: "string list" where
  "defaults = [''models/gemini-1.5-pro'', ''models/gemini-1.5-flash'']"

text \<open>
  \<^verbatim>\<open>all_models.sort(reverse=True)\<close>: descending order. Equal strings are the same
  string, so the reversed ascending sort is the list Python produces.
\<close>

definition sort_reverse :: "string list \<Rightarrow> string list" where
  "sort_reverse xs = rev (sort xs)"

text \<open>
  The discovery call is the argument: \<open>None\<close> when anything inside the \<^verbatim>\<open>try\<close> raises
  (the bare \<^verbatim>\<open>except\<close> returns the defaults), otherwise the listed models.
\<close>

definition get_best_models :: "model_info list option \<Rightarrow> string list" where
  "get_best_models listing =
     (case listing of
        None \<Rightarrow> defaults
      | Some ms \<Rightarrow>
          (let all_models = sort_reverse
                 (map model_name
                    (filter (\<lambda>m. ''generateContent'' \<in> set (supported_generation_methods m)) ms));
               exp = filter (\<lambda>m. str_in ''exp'' m) all_models;
               pro = filter (\<lambda>m. str_in ''pro'' m \<and> \<not> str_in ''exp'' m) all_models;
               flash = filter (\<lambda>m. str_in ''flash'' m \<and> \<not> str_in ''exp'' m) all_models;
               final_list = exp @ pro @ flash
           in if final_list \<noteq> [] then final_list else defaults))"

text \<open>The identifiers of the listed models that advertise content generation.\<close>

definition capable :: "model_info list \<Rightarrow> string list" where
  "capable ms =
     map model_name (filter (\<lambda>m. ''generateContent'' \<in> set (supported_generation_methods m)) ms)"

section \<open>Python values\<close>

text \<open>
  Python floats are not fixed by the model: \<open>'f\<close> is the type of the float values (with
  NaN, the infinities, and numpy's \<^verbatim>\<open>float64\<close>), and every operation on them is a field
  of the library record below. A theorem that holds for every library holds for binary
  floating point in particular; the definitions of the section on numbers are one possible
  library, used in the examples.
\<close>

text \<open>
  What \<^verbatim>\<open>json.loads\<close> returns and \<^verbatim>\<open>json.dump\<close> writes. An object is a dict in
  insertion order; its keys are distinct.
\<close>

datatype 'f json =
    JNull
  | JBool bool
  | JInt int
  | JNum 'f
  | JStr string
  | JArr "'f json list"
  | JObj "(string \<times> 'f json) list"

datatype py_error = KeyError | TypeError | AttributeError | ValueError | IndexError

text \<open>\<^verbatim>\<open>d.get(k, dflt)\<close> on a dict.\<close>

definition dict_get :: "(string \<times> 'f json) list \<Rightarrow> string \<Rightarrow> 'f json \<Rightarrow> 'f json" where
  "dict_get d k dflt = (case map_of d k of None \<Rightarrow> dflt | Some v \<Rightarrow> v)"

text \<open>
  \<^verbatim>\<open>x.get(k, dflt)\<close> on a loaded value: only a dict has \<^verbatim>\<open>get\<close>; on any other value the
  call raises \<^verbatim>\<open>AttributeError\<close> (\<open>None\<close> here).
\<close>

definition py_get :: "'f json \<Rightarrow> string \<Rightarrow> 'f json \<Rightarrow> 'f json option" where
  "py_get x k dflt = (case x of JObj d \<Rightarrow> Some (dict_get d k dflt) | _ \<Rightarrow> None)"

text \<open>
  The library functions the program calls and the model does not define:
  \<^item> \<^verbatim>\<open>json.loads\<close> (\<open>None\<close> when it raises), \<^verbatim>\<open>json.dumps\<close>, and \<^verbatim>\<open>str\<close> on numbers,
    lists and dicts;
  \<^item> on floats: \<^verbatim>\<open>x == 0\<close>, \<^verbatim>\<open>x - y\<close>, \<^verbatim>\<open>x + y\<close>, \<^verbatim>\<open>x * y\<close>, \<^verbatim>\<open>x / y\<close> (\<open>None\<close> when it
    raises \<^verbatim>\<open>ZeroDivisionError\<close>, which a Python float does on a zero divisor and a numpy
    float does not), the float of an integer literal, the formats \<^verbatim>\<open>.2f\<close> and \<^verbatim>\<open>+.2f\<close>,
    \<^verbatim>\<open>float(s)\<close> (\<open>None\<close> for \<^verbatim>\<open>ValueError\<close>) and \<^verbatim>\<open>round(x, 2)\<close>.
\<close>

record 'f pylib =
  json_loads :: "string \<Rightarrow> 'f json option"
  json_dumps :: "'f json \<Rightarrow> string"
  str_other :: "'f json \<Rightarrow> string"
  float_is_zero :: "'f \<Rightarrow> bool"
  float_sub :: "'f \<Rightarrow> 'f \<Rightarrow> 'f"
  float_add :: "'f \<Rightarrow> 'f \<Rightarrow> 'f"
  float_mul :: "'f \<Rightarrow> 'f \<Rightarrow> 'f"
  float_div :: "'f \<Rightarrow> 'f \<Rightarrow> 'f option"
  float_of_int :: "int \<Rightarrow> 'f"
  format_2f :: "'f \<Rightarrow> string"
  format_plus_2f :: "'f \<Rightarrow> string"
  float_of_str :: "string \<Rightarrow> 'f option"
  float_round2 :: "'f \<Rightarrow> 'f"

text \<open>\<^verbatim>\<open>str(v)\<close>, which is also how an f-string and \<^verbatim>\<open>str.format\<close> render \<open>v\<close>.\<close>

definition py_str :: "'f pylib \<Rightarrow> 'f json \<Rightarrow> string" where
  "py_str lib v =
     (case v of
        JStr s \<Rightarrow> s
      | JNull \<Rightarrow> ''None''
      | JBool b \<Rightarrow> (if b then ''True'' else ''False'')
      | _ \<Rightarrow> str_other lib v)"

text \<open>
  The value of the variables \<^verbatim>\<open>price\<close> and \<^verbatim>\<open>prev\<close>: \<^verbatim>\<open>None\<close>, the integer \<^verbatim>\<open>0\<close>
  (the initial value of \<^verbatim>\<open>price\<close> and the default of \<^verbatim>\<open>fast.get\<close>), or a float.
\<close>

datatype 'f pynum = PyNone | PyZero | Num 'f

text \<open>\<^verbatim>\<open>v == 0\<close>.\<close>

definition is_zero :: "'f pylib \<Rightarrow> 'f pynum \<Rightarrow> bool" where
  "is_zero lib v = (case v of PyNone \<Rightarrow> False | PyZero \<Rightarrow> True | Num x \<Rightarrow> float_is_zero lib x)"

text \<open>Truth value in a condition: \<^verbatim>\<open>None\<close> and zero are false.\<close>

definition truthy :: "'f pylib \<Rightarrow> 'f pynum \<Rightarrow> bool" where
  "truthy lib v = (case v of PyNone \<Rightarrow> False | PyZero \<Rightarrow> False | Num x \<Rightarrow> \<not> float_is_zero lib x)"

section \<open>Market facts of one ticker\<close>

text \<open>
  What the outside world answers while one ticker is processed. \<open>None\<close> in an outer
  \<open>option\<close> means that the call raises an exception.
  \<^item> \<open>fast_info_last_price\<close>, \<open>fast_info_previous_close\<close>: \<^verbatim>\<open>ticker.fast_info\<close> and its
    two \<^verbatim>\<open>get\<close> calls, each a float, \<^verbatim>\<open>None\<close> or the default \<^verbatim>\<open>0\<close>;
  \<^item> \<open>history_5d\<close>: the \<^verbatim>\<open>Close\<close> column of \<^verbatim>\<open>ticker.history(period="5d")\<close>;
  \<^item> \<open>ticker_news\<close>: \<^verbatim>\<open>ticker.news\<close>; an item is the pair of its formatted date and its
    title as text, or \<open>None\<close> when reading the item raises;
  \<^item> \<open>history_1y\<close>: \<^verbatim>\<open>ticker.history(period="1y")\<close>, given as its month-end series
    \<^verbatim>\<open>hist['Close'].resample('ME').last()\<close>, each point the (year, month) of its index
    and its value (NaN for a month without a trading day); the series is empty exactly
    when the frame is empty;
  \<^item> \<open>ticker_info\<close>: the dict \<^verbatim>\<open>ticker.info\<close>;
  \<^item> \<open>generate_content\<close>: the text of the response of the \<open>i\<close>-th attempt, made on model
    \<open>m\<close> with a prompt, or \<open>None\<close> when creating the model, the call or reading
    \<^verbatim>\<open>resp.text\<close> raises;
  \<^item> \<open>now_text\<close>: \<^verbatim>\<open>datetime.datetime.now().strftime("%Y-%m-%d %H:%M")\<close>.
\<close>

record 'f ticker_env =
  fast_info_last_price :: "'f pynum option"
  fast_info_previous_close :: "'f pynum option"
  history_5d :: "'f list option"
  ticker_news :: "(string \<times> string) option list option"
  history_1y :: "((nat \<times> nat) \<times> 'f) list option"
  ticker_info :: "(string \<times> 'f json) list option"
  generate_content :: "nat \<Rightarrow> string \<Rightarrow> string \<Rightarrow> string option"
  now_text :: string

text \<open>
  The last statement of the inner \<^verbatim>\<open>try\<close>:
  \<^verbatim>\<open>if price and prev: change_pct = f"{(((price - prev)/prev)*100):+.2f}%"\<close>.
  The change percent is formatted when price and previous close are both true, and stays
  \<^verbatim>\<open>0%\<close> otherwise, also when the division raises (the \<^verbatim>\<open>except\<close> passes).
\<close>

definition change_pct_of :: "'f pylib \<Rightarrow> 'f pynum \<Rightarrow> 'f pynum \<Rightarrow> string" where
  "change_pct_of lib price prev =
     (case (price, prev) of
        (Num p, Num q) \<Rightarrow>
          if \<not> float_is_zero lib p \<and> \<not> float_is_zero lib q then
            (case float_div lib (float_sub lib p q) q of
               None \<Rightarrow> ''0%''
             | Some d \<Rightarrow> format_plus_2f lib (float_mul lib d (float_of_int lib 100)) @ ''%'')
          else ''0%''
      | _ \<Rightarrow> ''0%'')"

text \<open>
  Part A of \<^verbatim>\<open>get_stock_data\<close>: price and change percent after the inner
  \<^verbatim>\<open>try\<close>. An exception leaves the variables as they are at that point: the price keeps
  the value already assigned and the change percent stays \<^verbatim>\<open>0%\<close>.
\<close>

definition quote_facts :: "'f pylib \<Rightarrow> 'f ticker_env \<Rightarrow> 'f pynum \<times> string" where
  "quote_facts lib env =
     (case fast_info_last_price env of
        None \<Rightarrow> (PyZero, ''0%'')
      | Some price \<Rightarrow>
          (case fast_info_previous_close env of
             None \<Rightarrow> (price, ''0%'')
           | Some prev \<Rightarrow>
               if is_zero lib price then
                 (case history_5d env of
                    None \<Rightarrow> (price, ''0%'')
                  | Some h \<Rightarrow>
                      if h \<noteq> [] then
                        (if length h < 2 then (Num (last h), ''0%'')
                         else (Num (last h),
                               change_pct_of lib (Num (last h)) (Num (h ! (length h - 2)))))
                      else (price, change_pct_of lib price prev))
               else (price, change_pct_of lib price prev)))"

text \<open>
  Part B: the news block. Reading stops at the first item that raises; the lines
  already appended stay.
\<close>

fun news_lines :: "(string \<times> string) option list \<Rightarrow> string" where
  "news_lines [] = []"
| "news_lines (None # ns) = []"
| "news_lines (Some (d, t) # ns) = ''- '' @ d @ '': '' @ t @ [CHR 0x0A] @ news_lines ns"

definition news_summary_of :: "'f ticker_env \<Rightarrow> string" where
  "news_summary_of env = (case ticker_news env of None \<Rightarrow> [] | Some ns \<Rightarrow> news_lines (take 3 ns))"

text \<open>Part C: the chart series. \<^verbatim>\<open>.tail(12)\<close> keeps the last twelve points.\<close>

definition py_tail :: "nat \<Rightarrow> 'a list \<Rightarrow> 'a list" where
  "py_tail n xs = drop (length xs - n) xs"

text \<open>
  \<^verbatim>\<open>d.strftime('%Y-%m')\<close> for a pandas timestamp (years 1677 to 2262, so the year has four
  digits): the year, a hyphen, the month on two digits.
\<close>

definition strftime_Ym :: "nat \<times> nat \<Rightarrow> string" where
  "strftime_Ym d =
     str_nat (fst d) @ ''-'' @ [digit_char (snd d div 10 mod 10), digit_char (snd d mod 10)]"

definition chart_dates_of :: "((nat \<times> nat) \<times> 'f) list \<Rightarrow> string list" where
  "chart_dates_of hist = (if hist \<noteq> [] then map (\<lambda>r. strftime_Ym (fst r)) (py_tail 12 hist) else [])"

definition chart_prices_of :: "'f pylib \<Rightarrow> ((nat \<times> nat) \<times> 'f) list \<Rightarrow> 'f list" where
  "chart_prices_of lib hist =
     (if hist \<noteq> [] then map (\<lambda>r. float_round2 lib (snd r)) (py_tail 12 hist) else [])"

definition chart_data_for_ai_of :: "string list \<Rightarrow> 'f list \<Rightarrow> 'f json list" where
  "chart_data_for_ai_of chart_dates chart_prices =
     map (\<lambda>(d, p). JObj [(''d'', JStr d), (''p'', JNum p)]) (zip chart_dates chart_prices)"

section \<open>The prompt\<close>

text \<open>
  The lines of \<^verbatim>\<open>PROMPT_TEMPLATE\<close>, as UTF-8 bytes; the double quote is \<open>CHR 0x22\<close>.
\<close>

definition template_lines :: "string list" where
  "template_lines =
     [[CHR 0xE4, CHR 0xBD, CHR 0xA0, CHR 0xE6, CHR 0x98, CHR 0xAF] @ '' bbb ''
        @ [CHR 0xE5, CHR 0xB0, CHR 0x88, CHR 0xE6, CHR 0xA5, CHR 0xAD, CHR 0xE5, CHR 0x88, CHR 0x86]
        @ [CHR 0xE6, CHR 0x9E, CHR 0x90, CHR 0xE5, CHR 0xB8, CHR 0xAB, CHR 0xE3, CHR 0x80, CHR 0x82]
        @ [CHR 0xE8, CHR 0xAB, CHR 0x8B, CHR 0xE5, CHR 0x9F, CHR 0xBA, CHR 0xE6, CHR 0x96, CHR 0xBC]
        @ [CHR 0xE4, CHR 0xBB, CHR 0xA5, CHR 0xE4, CHR 0xB8, CHR 0x8B, CHR 0xE3, CHR 0x80, CHR 0x90]
        @ [CHR 0xE7, CHR 0xB5, CHR 0x95, CHR 0xE5, CHR 0xB0, CHR 0x8D, CHR 0xE4, CHR 0xBA, CHR 0x8B]
        @ [CHR 0xE5, CHR 0xAF, CHR 0xA6, CHR 0xE3, CHR 0x80, CHR 0x91, CHR 0xE8, CHR 0xA3, CHR 0x9C]
        @ [CHR 0xE5, CHR 0xAE, CHR 0x8C, CHR 0xE5, CHR 0x88, CHR 0x86, CHR 0xE6, CHR 0x9E, CHR 0x90]
        @ [CHR 0xE5, CHR 0xA0, CHR 0xB1, CHR 0xE5, CHR 0x91, CHR 0x8A, CHR 0xE3, CHR 0x80, CHR 0x82],
      [],
      [CHR 0xE3, CHR 0x80, CHR 0x90, CHR 0xE9, CHR 0x8E, CHR 0x96, CHR 0xE5, CHR 0xAE, CHR 0x9A]
        @ [CHR 0xE4, CHR 0xBA, CHR 0x8B, CHR 0xE5, CHR 0xAF, CHR 0xA6] @ '' (API Data)''
        @ [CHR 0xE3, CHR 0x80, CHR 0x91] @ ''- **''
        @ [CHR 0xE5, CHR 0x9A, CHR 0xB4, CHR 0xE7, CHR 0xA6, CHR 0x81, CHR 0xE4, CHR 0xBF, CHR 0xAE]
        @ [CHR 0xE6, CHR 0x94, CHR 0xB9, CHR 0xE6, CHR 0x95, CHR 0xB8, CHR 0xE5, CHR 0x80, CHR 0xBC]
        @ ''**'' @ [CHR 0xEF, CHR 0xBC, CHR 0x9A],
      ''- ''
        @ [CHR 0xE8, CHR 0x82, CHR 0xA1, CHR 0xE7, CHR 0xA5, CHR 0xA8, CHR 0xEF, CHR 0xBC, CHR 0x9A]
        @ ''{name} ({stock_id})'',
      ''- ''
        @ [CHR 0xE7, CHR 0x8F, CHR 0xBE, CHR 0xE5, CHR 0x83, CHR 0xB9, CHR 0xEF, CHR 0xBC, CHR 0x9A]
        @ ''{price} ({change_pct})'',
      ''- ''
        @ [CHR 0xE6, CHR 0xAD, CHR 0xB7, CHR 0xE5, CHR 0x8F, CHR 0xB2, CHR 0xE8, CHR 0x82, CHR 0xA1]
        @ [CHR 0xE5, CHR 0x83, CHR 0xB9] @ ''(''
        @ [CHR 0xE4, CHR 0xBE, CHR 0x9B, CHR 0xE7, CHR 0xB9, CHR 0xAA, CHR 0xE5, CHR 0x9C, CHR 0x96]
        @ [CHR 0xE5, CHR 0x8F, CHR 0x83, CHR 0xE8, CHR 0x80, CHR 0x83] @ '')''
        @ [CHR 0xEF, CHR 0xBC, CHR 0x9A] @ ''{chart_dump}'',
      [],
      [CHR 0xE3, CHR 0x80, CHR 0x90, CHR 0xE4, CHR 0xBD, CHR 0xA0, CHR 0xE7, CHR 0x9A, CHR 0x84]
        @ [CHR 0xE4, CHR 0xBB, CHR 0xBB, CHR 0xE5, CHR 0x8B, CHR 0x99] @ '' (''
        @ [CHR 0xE9, CHR 0x9C, CHR 0x80, CHR 0xE8, CHR 0x81, CHR 0xAF, CHR 0xE7, CHR 0xB6, CHR 0xB2]
        @ [CHR 0xE6, CHR 0x90, CHR 0x9C, CHR 0xE5, CHR 0xB0, CHR 0x8B] @ '')''
        @ [CHR 0xE3, CHR 0x80, CHR 0x91, CHR 0xEF, CHR 0xBC, CHR 0x9A],
      ''1. **''
        @ [CHR 0xE8, CHR 0xB2, CHR 0xA1, CHR 0xE5, CHR 0x8B, CHR 0x99, CHR 0xE8, CHR 0xA3, CHR 0x9C]
        @ [CHR 0xE5, CHR 0xAE, CHR 0x8C] @ ''**'' @ [CHR 0xEF, CHR 0xBC, CHR 0x9A],
      ''   - ''
        @ [CHR 0xE7, CHR 0x87, CHR 0x9F, CHR 0xE6, CHR 0x94, CHR 0xB6, CHR 0xEF, CHR 0xBC, CHR 0x9A]
        @ [CHR 0xE8, CHR 0x8B, CHR 0xA5, CHR 0xE6, CHR 0x9C, CHR 0xAC, CHR 0xE6, CHR 0x9C, CHR 0x88]
        @ [CHR 0xE5, CHR 0xB0, CHR 0x9A, CHR 0xE6, CHR 0x9C, CHR 0xAA, CHR 0xE5, CHR 0x85, CHR 0xAC]
        @ [CHR 0xE5, CHR 0xB8, CHR 0x83, CHR 0xEF, CHR 0xBC, CHR 0x8C, CHR 0xE8, CHR 0xAB, CHR 0x8B]
        @ [CHR 0xE9, CHR 0xA0, CHR 0x90, CHR 0xE4, CHR 0xBC, CHR 0xB0, CHR 0xE4, CHR 0xB8, CHR 0xA6]
        @ [CHR 0xE6, CHR 0xA8, CHR 0x99, CHR 0xE8, CHR 0xA8, CHR 0x98]
        @ '' `is_estimate: true`'' @ [CHR 0xE3, CHR 0x80, CHR 0x82],
      ''   - EPS''
        @ [CHR 0xEF, CHR 0xBC, CHR 0x9A, CHR 0xE6, CHR 0x90, CHR 0x9C, CHR 0xE5, CHR 0xB0, CHR 0x8B]
        @ [CHR 0xE9, CHR 0xA0, CHR 0x90, CHR 0xE4, CHR 0xBC, CHR 0xB0, CHR 0xE5, CHR 0x80, CHR 0xBC]
        @ [CHR 0xEF, CHR 0xBC, CHR 0x8C, CHR 0xE6, CHR 0xA8, CHR 0x99, CHR 0xE8, CHR 0xA8, CHR 0x98]
        @ '' `is_estimate: true`'' @ [CHR 0xE3, CHR 0x80, CHR 0x82],
      ''   - ''
        @ [CHR 0xE4, CHR 0xBC, CHR 0xB0, CHR 0xE5, CHR 0x80, CHR 0xBC, CHR 0xEF, CHR 0xBC, CHR 0x9A]
        @ [CHR 0xE4, CHR 0xBE, CHR 0x9D, CHR 0xE6, CHR 0x93, CHR 0x9A, CHR 0xE6, CHR 0xAD, CHR 0xB7]
        @ [CHR 0xE5, CHR 0x8F, CHR 0xB2, CHR 0xE8, CHR 0x82, CHR 0xA1, CHR 0xE5, CHR 0x83, CHR 0xB9]
        @ ''('' @ [CHR 0xE5, CHR 0xAF, CHR 0xA6, CHR 0xE7, CHR 0xB7, CHR 0x9A] @ '')''
        @ [CHR 0xE8, CHR 0xA8, CHR 0x88, CHR 0xE7, CHR 0xAE, CHR 0x97, CHR 0xE5, CHR 0x90, CHR 0x88]
        @ [CHR 0xE7, CHR 0x90, CHR 0x86] @ '' PE ''
        @ [CHR 0xE5, CHR 0x80, CHR 0x8D, CHR 0xE6, CHR 0x95, CHR 0xB8, CHR 0xE5, CHR 0x8D, CHR 0x80]
        @ [CHR 0xE9, CHR 0x96, CHR 0x93] @ ''(''
        @ [CHR 0xE8, CHR 0x99, CHR 0x9B, CHR 0xE7, CHR 0xB7, CHR 0x9A] @ '')''
        @ [CHR 0xE3, CHR 0x80, CHR 0x82],
      ''2. **''
        @ [CHR 0xE8, CHR 0xB3, CHR 0xAA, CHR 0xE6, CHR 0x80, CHR 0xA7, CHR 0xE5, CHR 0x88, CHR 0x86]
        @ [CHR 0xE6, CHR 0x9E, CHR 0x90] @ ''**''
        @ [CHR 0xEF, CHR 0xBC, CHR 0x9A, CHR 0xE7, CHR 0x94, CHR 0xA2, CHR 0xE6, CHR 0xA5, CHR 0xAD]
        @ [CHR 0xE8, CHR 0xAD, CHR 0xB7, CHR 0xE5, CHR 0x9F, CHR 0x8E, CHR 0xE6, CHR 0xB2, CHR 0xB3]
        @ [CHR 0xE3, CHR 0x80, CHR 0x81, CHR 0xE7, CHR 0xAB, CHR 0xB6, CHR 0xE7, CHR 0x88, CHR 0xAD]
        @ [CHR 0xE8, CHR 0x80, CHR 0x85, CHR 0xE3, CHR 0x80, CHR 0x82],
      ''3. **''
        @ [CHR 0xE6, CHR 0x8A, CHR 0x80, CHR 0xE8, CHR 0xA1, CHR 0x93, CHR 0xE5, CHR 0x88, CHR 0xA4]
        @ [CHR 0xE8, CHR 0xAE, CHR 0x80] @ ''**''
        @ [CHR 0xEF, CHR 0xBC, CHR 0x9A, CHR 0xE7, CHR 0xB5, CHR 0xA6, CHR 0xE5, CHR 0x87, CHR 0xBA]
        @ '' 30/180/360 ''
        @ [CHR 0xE5, CHR 0xA4, CHR 0xA9, CHR 0xE5, CHR 0x83, CHR 0xB9, CHR 0xE6, CHR 0xA0, CHR 0xBC]
        @ [CHR 0xE9, CHR 0xA0, CHR 0x90, CHR 0xE6, CHR 0xB8, CHR 0xAC, CHR 0xE8, CHR 0x88, CHR 0x87]
        @ [CHR 0xE7, CHR 0xAD, CHR 0x96, CHR 0xE7, CHR 0x95, CHR 0xA5, CHR 0xE3, CHR 0x80, CHR 0x82],
      [],
      [CHR 0xE8, CHR 0xAB, CHR 0x8B, CHR 0xE5, CHR 0x9B, CHR 0x9E, CHR 0xE5, CHR 0x82, CHR 0xB3]
        @ '' **'' @ [CHR 0xE7, CHR 0xB4, CHR 0x94] @ '' JSON**''
        @ [CHR 0xEF, CHR 0xBC, CHR 0x8C, CHR 0xE6, CHR 0xA0, CHR 0xBC, CHR 0xE5, CHR 0xBC, CHR 0x8F]
        @ [CHR 0xE5, CHR 0xA6, CHR 0x82, CHR 0xE4, CHR 0xB8, CHR 0x8B] @ '' (''
        @ [CHR 0xE4, CHR 0xB8, CHR 0x8D, CHR 0xE8, CHR 0xA6, CHR 0x81, CHR 0xE7, CHR 0x94, CHR 0xA8]
        @ '' Markdown)'' @ [CHR 0xEF, CHR 0xBC, CHR 0x9A],
      ''{{'',
      ''  '' @ [CHR 0x22] @ ''industry'' @ [CHR 0x22] @ '': {{ '' @ [CHR 0x22]
        @ ''moat_status'' @ [CHR 0x22] @ '': '' @ [CHR 0x22] @ ''..'' @ [CHR 0x22] @ '', ''
        @ [CHR 0x22] @ ''position_map'' @ [CHR 0x22] @ '': '' @ [CHR 0x22] @ ''..''
        @ [CHR 0x22] @ '', '' @ [CHR 0x22] @ ''competitors'' @ [CHR 0x22] @ '': ''
        @ [CHR 0x22] @ ''..'' @ [CHR 0x22] @ '' }},'',
      ''  '' @ [CHR 0x22] @ ''financials'' @ [CHR 0x22] @ '': {{'',
      ''    '' @ [CHR 0x22] @ ''eps_table'' @ [CHR 0x22] @ '': ['',
      ''       {{ '' @ [CHR 0x22] @ ''period'' @ [CHR 0x22] @ '': '' @ [CHR 0x22]
        @ ''2024Q3'' @ [CHR 0x22] @ '', '' @ [CHR 0x22] @ ''gross_margin'' @ [CHR 0x22]
        @ '': '' @ [CHR 0x22] @ ''..'' @ [CHR 0x22] @ '', '' @ [CHR 0x22] @ ''eps''
        @ [CHR 0x22] @ '': ''
        @ [CHR 0x22, CHR 0xE4, CHR 0xBA, CHR 0x8B, CHR 0xE5, CHR 0xAF, CHR 0xA6, CHR 0x22]
        @ '', '' @ [CHR 0x22] @ ''cumulative'' @ [CHR 0x22] @ '': '' @ [CHR 0x22] @ ''..''
        @ [CHR 0x22] @ '', '' @ [CHR 0x22] @ ''is_estimate'' @ [CHR 0x22] @ '': false }},'',
      ''       {{ '' @ [CHR 0x22] @ ''period'' @ [CHR 0x22] @ '': '' @ [CHR 0x22]
        @ ''2025Q1'' @ [CHR 0x22] @ '', '' @ [CHR 0x22] @ ''gross_margin'' @ [CHR 0x22]
        @ '': '' @ [CHR 0x22] @ ''..'' @ [CHR 0x22] @ '', '' @ [CHR 0x22] @ ''eps''
        @ [CHR 0x22] @ '': ''
        @ [CHR 0x22, CHR 0xE9, CHR 0xA0, CHR 0x90, CHR 0xE4, CHR 0xBC, CHR 0xB0, CHR 0x22]
        @ '', '' @ [CHR 0x22] @ ''cumulative'' @ [CHR 0x22] @ '': '' @ [CHR 0x22] @ ''..''
        @ [CHR 0x22] @ '', '' @ [CHR 0x22] @ ''is_estimate'' @ [CHR 0x22] @ '': true }}'',
      ''    ],'',
      ''    '' @ [CHR 0x22] @ ''revenue_trend'' @ [CHR 0x22] @ '': ['',
      ''       {{ '' @ [CHR 0x22] @ ''month'' @ [CHR 0x22] @ '': '' @ [CHR 0x22]
        @ ''2024-11'' @ [CHR 0x22] @ '', '' @ [CHR 0x22] @ ''revenue'' @ [CHR 0x22] @ '': ''
        @ [CHR 0x22] @ ''..'' @ [CHR 0x22] @ '', '' @ [CHR 0x22] @ ''mom'' @ [CHR 0x22]
        @ '': '' @ [CHR 0x22] @ ''..'' @ [CHR 0x22] @ '', '' @ [CHR 0x22] @ ''yoy''
        @ [CHR 0x22] @ '': '' @ [CHR 0x22] @ ''..'' @ [CHR 0x22] @ '', '' @ [CHR 0x22]
        @ ''is_estimate'' @ [CHR 0x22] @ '': false }}'',
      ''    ],'',
      ''    '' @ [CHR 0x22] @ ''valuation'' @ [CHR 0x22] @ '': {{'',
      ''        '' @ [CHR 0x22] @ ''pe_status'' @ [CHR 0x22] @ '': '' @ [CHR 0x22] @ ''..''
        @ [CHR 0x22] @ '', '' @ [CHR 0x22] @ ''pb'' @ [CHR 0x22] @ '': '' @ [CHR 0x22]
        @ ''..'' @ [CHR 0x22] @ '', '' @ [CHR 0x22] @ ''roe'' @ [CHR 0x22] @ '': ''
        @ [CHR 0x22] @ ''..'' @ [CHR 0x22] @ '','',
      ''        '' @ [CHR 0x22] @ ''pe_river_data'' @ [CHR 0x22] @ '': {{'',
      ''            '' @ [CHR 0x22] @ ''dates'' @ [CHR 0x22] @ '': [], '' @ [CHR 0x22]
        @ ''price'' @ [CHR 0x22] @ '': [], '' @ [CHR 0x22] @ ''pe20'' @ [CHR 0x22]
        @ '': [], '' @ [CHR 0x22] @ ''pe16'' @ [CHR 0x22] @ '': [], '' @ [CHR 0x22] @ ''pe12''
        @ [CHR 0x22] @ '': [] '',
      ''        }}'',
      ''    }}'',
      ''  }},'',
      ''  '' @ [CHR 0x22] @ ''technical'' @ [CHR 0x22] @ '': {{'',
      ''    '' @ [CHR 0x22] @ ''status'' @ [CHR 0x22] @ '': '' @ [CHR 0x22] @ ''..''
        @ [CHR 0x22] @ '', '' @ [CHR 0x22] @ ''signal_light'' @ [CHR 0x22] @ '': ''
        @ [CHR 0x22] @ ''red_flash/green_flash/stable'' @ [CHR 0x22] @ '', '',
      ''    '' @ [CHR 0x22] @ ''analysis_text'' @ [CHR 0x22] @ '': '' @ [CHR 0x22] @ ''..''
        @ [CHR 0x22] @ '','',
      ''    '' @ [CHR 0x22] @ ''predictions'' @ [CHR 0x22] @ '': {{ '' @ [CHR 0x22]
        @ ''days30'' @ [CHR 0x22] @ '': '' @ [CHR 0x22] @ ''..'' @ [CHR 0x22] @ '', ''
        @ [CHR 0x22] @ ''days180'' @ [CHR 0x22] @ '': '' @ [CHR 0x22] @ ''..'' @ [CHR 0x22]
        @ '', '' @ [CHR 0x22] @ ''days360'' @ [CHR 0x22] @ '': '' @ [CHR 0x22] @ ''..''
        @ [CHR 0x22] @ '', '' @ [CHR 0x22] @ ''entry_zone'' @ [CHR 0x22] @ '': '' @ [CHR 0x22]
        @ ''..'' @ [CHR 0x22] @ '' }},'',
      ''    '' @ [CHR 0x22] @ ''correction_c'' @ [CHR 0x22] @ '': '' @ [CHR 0x22] @ ''0.XX''
        @ [CHR 0x22] @ '','',
      ''    '' @ [CHR 0x22] @ ''bollinger'' @ [CHR 0x22] @ '': {{ '' @ [CHR 0x22]
        @ ''status'' @ [CHR 0x22] @ '': '' @ [CHR 0x22] @ ''..'' @ [CHR 0x22] @ '', ''
        @ [CHR 0x22] @ ''description'' @ [CHR 0x22] @ '': '' @ [CHR 0x22] @ ''..''
        @ [CHR 0x22] @ '' }}'',
      ''  }},'',
      ''  '' @ [CHR 0x22] @ ''news_events'' @ [CHR 0x22] @ '': {{'',
      ''    '' @ [CHR 0x22] @ ''news'' @ [CHR 0x22] @ '': [ {{ '' @ [CHR 0x22] @ ''date''
        @ [CHR 0x22] @ '': '' @ [CHR 0x22] @ ''YYYY-MM-DD'' @ [CHR 0x22] @ '', '' @ [CHR 0x22]
        @ ''title'' @ [CHR 0x22] @ '': '' @ [CHR 0x22] @ ''..'' @ [CHR 0x22] @ '', ''
        @ [CHR 0x22] @ ''type'' @ [CHR 0x22] @ '': '' @ [CHR 0x22]
        @ ''positive/neutral/negative'' @ [CHR 0x22] @ '', '' @ [CHR 0x22] @ ''is_new''
        @ [CHR 0x22] @ '': true }} ],'',
      ''    '' @ [CHR 0x22] @ ''calendar'' @ [CHR 0x22] @ '': [ {{ '' @ [CHR 0x22]
        @ ''date'' @ [CHR 0x22] @ '': '' @ [CHR 0x22] @ ''YYYY-MM-DD'' @ [CHR 0x22] @ '', ''
        @ [CHR 0x22] @ ''event'' @ [CHR 0x22] @ '': '' @ [CHR 0x22] @ ''..'' @ [CHR 0x22]
        @ '' }} ]'',
      ''  }},'',
      ''  '' @ [CHR 0x22] @ ''dividend'' @ [CHR 0x22] @ '': {{ '' @ [CHR 0x22] @ ''yield''
        @ [CHR 0x22] @ '': '' @ [CHR 0x22] @ ''..'' @ [CHR 0x22] @ '', '' @ [CHR 0x22]
        @ ''history_roi'' @ [CHR 0x22] @ '': '' @ [CHR 0x22] @ ''..'' @ [CHR 0x22] @ '', ''
        @ [CHR 0x22] @ ''future_roi'' @ [CHR 0x22] @ '': '' @ [CHR 0x22] @ ''..'' @ [CHR 0x22]
        @ '' }},'',
      ''  '' @ [CHR 0x22] @ ''memo'' @ [CHR 0x22] @ '': '' @ [CHR 0x22, CHR 0x22],
      ''}}'']"

text \<open>The template starts with a line break, and every line ends with one.\<close>

definition PROMPT_TEMPLATE :: string where
  "PROMPT_TEMPLATE = CHR 0x0A # concat (map (\<lambda>l. l @ [CHR 0x0A]) template_lines)"

text \<open>
  \<^verbatim>\<open>str.format\<close> with keyword arguments only. \<open>{{\<close> and \<open>}}\<close> stand for a brace; the text
  between \<open>{\<close> and \<open>}\<close> is read as the name of a keyword argument (the fields of the
  template are plain names; conversions, format specifications, attribute and index
  access are not modelled). A missing keyword raises \<^verbatim>\<open>KeyError\<close>, an empty field
  \<^verbatim>\<open>IndexError\<close> (there are no positional arguments), an unmatched brace
  \<^verbatim>\<open>ValueError\<close>. Keyword arguments the template does not name are ignored.
\<close>

datatype fmt_mode = Text | AfterOpen | AfterClose | InField string

fun format_go :: "(string \<times> string) list \<Rightarrow> fmt_mode \<Rightarrow> string \<Rightarrow> py_error + string" where
  "format_go kw m [] = (case m of Text \<Rightarrow> Inr [] | _ \<Rightarrow> Inl ValueError)"
| "format_go kw m (c # cs) =
     (case m of
        Text \<Rightarrow>
          if c = CHR ''{'' then format_go kw AfterOpen cs
          else if c = CHR ''}'' then format_go kw AfterClose cs
          else map_sum id ((#) c) (format_go kw Text cs)
      | AfterOpen \<Rightarrow>
          if c = CHR ''{'' then map_sum id ((#) c) (format_go kw Text cs)
          else if c = CHR ''}'' then Inl IndexError
          else format_go kw (InField [c]) cs
      | AfterClose \<Rightarrow>
          if c = CHR ''}'' then map_sum id ((#) c) (format_go kw Text cs)
          else Inl ValueError
      | InField f \<Rightarrow>
          if c = CHR ''}'' then
            (case map_of kw f of
               None \<Rightarrow> Inl KeyError
             | Some v \<Rightarrow> map_sum id ((@) v) (format_go kw Text cs))
          else if c = CHR ''{'' then Inl ValueError
          else format_go kw (InField (f @ [c])) cs)"

definition py_format :: "string \<Rightarrow> (string \<times> string) list \<Rightarrow> py_error + string" where
  "py_format template kw = format_go kw Text template"

text \<open>
  Reading a template without formatting it: the mode reached after the text and the names
  of the fields looked up on the way, in order; \<open>None\<close> when a brace is unmatched or a
  field is empty.
\<close>

fun scan :: "fmt_mode \<Rightarrow> string \<Rightarrow> (fmt_mode \<times> string list) option" where
  "scan m [] = Some (m, [])"
| "scan m (c # cs) =
     (case m of
        Text \<Rightarrow>
          if c = CHR ''{'' then scan AfterOpen cs
          else if c = CHR ''}'' then scan AfterClose cs
          else scan Text cs
      | AfterOpen \<Rightarrow>
          if c = CHR ''{'' then scan Text cs
          else if c = CHR ''}'' then None
          else scan (InField [c]) cs
      | AfterClose \<Rightarrow> if c = CHR ''}'' then scan Text cs else None
      | InField f \<Rightarrow>
          if c = CHR ''}'' then map_option (\<lambda>(m', fs). (m', f # fs)) (scan Text cs)
          else if c = CHR ''{'' then None
          else scan (InField (f @ [c])) cs)"

text \<open>The same, line by line, for a text given as its lines.\<close>

fun scan_lines :: "fmt_mode \<Rightarrow> string list \<Rightarrow> (fmt_mode \<times> string list) option" where
  "scan_lines m [] = Some (m, [])"
| "scan_lines m (l # ls) =
     (case scan m (l @ [CHR 0x0A]) of
        None \<Rightarrow> None
      | Some (m', fs) \<Rightarrow> map_option (\<lambda>(m'', gs). (m'', fs @ gs)) (scan_lines m' ls))"

text \<open>
  The call \<^verbatim>\<open>PROMPT_TEMPLATE.format(name=..., ..., news_summary=news_summary)\<close> of part D.
\<close>

definition compose_prompt ::
  "'f pylib \<Rightarrow> 'f json \<Rightarrow> string \<Rightarrow> string \<Rightarrow> string \<Rightarrow> 'f json list \<Rightarrow> string
     \<Rightarrow> py_error + string" where
  "compose_prompt lib name stock_id price_text change_pct chart_data_for_ai news_summary =
     py_format PROMPT_TEMPLATE
       [(''name'', py_str lib name),
        (''stock_id'', stock_id),
        (''price'', price_text),
        (''change_pct'', change_pct),
        (''chart_dump'', json_dumps lib (JArr chart_data_for_ai)),
        (''news_summary'', news_summary)]"

section \<open>Failover over the models\<close>

text \<open>The text handed to \<^verbatim>\<open>json.loads\<close>: code fences removed, then stripped.\<close>

definition clean_response :: "string \<Rightarrow> string" where
  "clean_response text = py_strip (py_replace ''```'' [] (py_replace ''```json'' [] text))"

text \<open>
  The body of the \<^verbatim>\<open>try\<close> for one model, as attempt number \<open>i\<close>: the parsed answer, or
  \<open>None\<close> when the call raises or the cleaned text does not parse.
\<close>

definition attempt ::
  "'f pylib \<Rightarrow> (nat \<Rightarrow> string \<Rightarrow> string \<Rightarrow> string option) \<Rightarrow> string \<Rightarrow> nat \<Rightarrow> string
     \<Rightarrow> 'f json option" where
  "attempt lib gen prompt i m =
     (case gen i m prompt of
        None \<Rightarrow> None
      | Some text \<Rightarrow> json_loads lib (clean_response text))"

text \<open>
  The loop \<^verbatim>\<open>for m in MODEL_PRIORITY\<close>, started with \<^verbatim>\<open>ai_res = {}\<close> and
  \<^verbatim>\<open>model_used = "N/A"\<close>. The result is the pair of these two variables after the loop,
  together with the calls made to the AI service, in order: the model and the prompt of
  each. \<open>i\<close> counts the attempts.
\<close>

fun failover ::
  "'f pylib \<Rightarrow> (nat \<Rightarrow> string \<Rightarrow> string \<Rightarrow> string option) \<Rightarrow> string \<Rightarrow> nat \<Rightarrow> string list
     \<Rightarrow> ('f json \<times> string) \<times> (string \<times> string) list" where
  "failover lib gen prompt i [] = ((JObj [], ''N/A''), [])"
| "failover lib gen prompt i (m # ms) =
     (case attempt lib gen prompt i m of
        None \<Rightarrow>
          (let (r, calls) = failover lib gen prompt (Suc i) ms in (r, (m, prompt) # calls))
      | Some ai_res \<Rightarrow> ((ai_res, py_replace ''models/'' [] m), [(m, prompt)]))"

section \<open>One ticker (\<^verbatim>\<open>get_stock_data\<close>)\<close>

text \<open>The category of a new id, U+65B0 U+52A0 U+5165 in UTF-8.\<close>

definition new_category :: string where
  "new_category =
     [CHR 0xE6, CHR 0x96, CHR 0xB0, CHR 0xE5, CHR 0x8A, CHR 0xA0, CHR 0xE5, CHR 0x85, CHR 0xA5]"

text \<open>\<^verbatim>\<open>if GEMINI_API_KEY:\<close> on the environment variable, which may be unset.\<close>

definition key_set :: "string option \<Rightarrow> bool" where
  "key_set k = (case k of None \<Rightarrow> False | Some s \<Rightarrow> s \<noteq> [])"

text \<open>
  Part D. Without a key the loop is not entered and \<^verbatim>\<open>name\<close> stays unbound, so the
  record's name is the stock id. With a key, \<^verbatim>\<open>ticker.info\<close> may raise, formatting a
  price that is \<^verbatim>\<open>None\<close> raises, and \<^verbatim>\<open>format\<close> may raise: the result is then \<open>None\<close>,
  for the exception that leaves the function through the outer handler. Otherwise the
  result holds \<^verbatim>\<open>name\<close>, \<^verbatim>\<open>ai_res\<close> and \<^verbatim>\<open>model_used\<close>.
\<close>

definition ai_analysis ::
  "'f pylib \<Rightarrow> string option \<Rightarrow> string list \<Rightarrow> 'f ticker_env \<Rightarrow> string \<Rightarrow> 'f pynum
     \<Rightarrow> string \<Rightarrow> 'f json list \<Rightarrow> string
     \<Rightarrow> ('f json \<times> 'f json \<times> string) option \<times> (string \<times> string) list" where
  "ai_analysis lib GEMINI_API_KEY MODEL_PRIORITY env stock_id price change_pct
       chart_data_for_ai news_summary =
     (if key_set GEMINI_API_KEY then
        (case ticker_info env of
           None \<Rightarrow> (None, [])
         | Some info \<Rightarrow>
             (let name = dict_get info ''longName'' (JStr stock_id) in
              case price of
                Num p \<Rightarrow>
                  (case compose_prompt lib name stock_id (format_2f lib p) change_pct
                          chart_data_for_ai news_summary of
                     Inl e \<Rightarrow> (None, [])
                   | Inr prompt \<Rightarrow>
                       (let ((ai_res, model_used), calls) =
                              failover lib (generate_content env) prompt 0 MODEL_PRIORITY
                        in (Some (name, ai_res, model_used), calls)))
              | _ \<Rightarrow> (None, [])))
      else (Some (JStr stock_id, JObj [], ''N/A''), []))"

text \<open>
  The \<^verbatim>\<open>change\<close> field:
  \<^verbatim>\<open>f"{(price-(price/(1+float(change_pct.strip('%'))/100))):+.2f}"\<close>.
  \<open>None\<close> when the expression raises: the price is \<^verbatim>\<open>None\<close>, the text is not a number,
  or a division raises.
\<close>

definition change_of :: "'f pylib \<Rightarrow> 'f pynum \<Rightarrow> string \<Rightarrow> string option" where
  "change_of lib price change_pct =
     (case price of
        Num p \<Rightarrow>
          do {
            x \<leftarrow> float_of_str lib (py_strip_chars ''%'' change_pct);
            y \<leftarrow> float_div lib x (float_of_int lib 100);
            z \<leftarrow> float_div lib p (float_add lib (float_of_int lib 1) y);
            Some (format_plus_2f lib (float_sub lib p z))
          }
      | _ \<Rightarrow> None)"

text \<open>
  \<^verbatim>\<open>old_data.get(k, dflt) if old_data else dflt\<close>: \<^verbatim>\<open>None\<close> and the empty dict are false.
\<close>

definition carried_over :: "(string \<times> 'f json) list option \<Rightarrow> string \<Rightarrow> 'f json \<Rightarrow> 'f json" where
  "carried_over old_data k dflt =
     (case old_data of
        None \<Rightarrow> dflt
      | Some d \<Rightarrow> if d \<noteq> [] then dict_get d k dflt else dflt)"

text \<open>
  Part E: the merge and the returned dict. Each \<^verbatim>\<open>get\<close> on a value that is not a dict
  raises, as do the price format on \<^verbatim>\<open>None\<close>, the change expression and
  \<^verbatim>\<open>ticker.info\<close>; the outer handler then returns \<^verbatim>\<open>None\<close>.
\<close>

definition merge_record ::
  "'f pylib \<Rightarrow> 'f ticker_env \<Rightarrow> string \<Rightarrow> 'f json \<Rightarrow> (string \<times> 'f json) list option
     \<Rightarrow> 'f pynum \<Rightarrow> string \<Rightarrow> string list \<Rightarrow> 'f list \<Rightarrow> 'f json \<Rightarrow> string
     \<Rightarrow> 'f json option" where
  "merge_record lib env stock_id name old_data price change_pct chart_dates chart_prices
       ai_res model_used =
     do {
       fin \<leftarrow> py_get ai_res ''financials'' (JObj []);
       val \<leftarrow> py_get fin ''valuation'' (JObj []);
       riv \<leftarrow> py_get val ''pe_river_data'' (JObj []);
       pe20 \<leftarrow> py_get riv ''pe20'' (JArr []);
       pe16 \<leftarrow> py_get riv ''pe16'' (JArr []);
       pe12 \<leftarrow> py_get riv ''pe12'' (JArr []);
       price_text \<leftarrow> (case price of Num p \<Rightarrow> Some (format_2f lib p) | _ \<Rightarrow> None);
       change \<leftarrow> change_of lib price change_pct;
       industry \<leftarrow> py_get ai_res ''industry'' (JObj []);
       news_events \<leftarrow>
         py_get ai_res ''news_events'' (JObj [(''news'', JArr []), (''calendar'', JArr [])]);
       eps_table \<leftarrow> py_get fin ''eps_table'' (JArr []);
       revenue_trend \<leftarrow> py_get fin ''revenue_trend'' (JArr []);
       pe_status \<leftarrow> py_get val ''pe_status'' (JStr ''-'');
       info \<leftarrow> ticker_info env;
       roe \<leftarrow> py_get val ''roe'' (JStr ''-'');
       technical \<leftarrow> py_get ai_res ''technical'' (JObj [(''signal_light'', JStr ''stable'')]);
       dividend \<leftarrow> py_get ai_res ''dividend'' (JObj []);
       Some (JObj
         [(''id'', JStr stock_id),
          (''name'', name),
          (''category'', carried_over old_data ''category'' (JStr new_category)),
          (''lastUpdated'', JStr (now_text env)),
          (''ai_model'', JStr model_used),
          (''memo'', carried_over old_data ''memo'' (JStr [])),
          (''basicInfo'', JObj
             [(''price'', JStr price_text),
              (''change'', JStr change),
              (''changePercent'', JStr change_pct)]),
          (''industry'', industry),
          (''news_events'', news_events),
          (''financials'', JObj
             [(''eps_table'', eps_table),
              (''revenue_trend'', revenue_trend),
              (''valuation'', JObj
                 [(''pe_status'', pe_status),
                  (''pb'', JStr (py_str lib (dict_get info ''priceToBook'' (JStr ''-'')))),
                  (''roe'', roe),
                  (''pe_river_data'', JObj
                     [(''dates'', JArr (map JStr chart_dates)),
                      (''price'', JArr (map JNum chart_prices)),
                      (''pe20'', pe20),
                      (''pe16'', pe16),
                      (''pe12'', pe12)])])]),
          (''technical'', technical),
          (''dividend'', dividend)])
     }"

text \<open>
  \<^verbatim>\<open>get_stock_data(target_id, old_data)\<close>: the returned record, or \<open>None\<close> for the
  \<^verbatim>\<open>None\<close> the function returns at a zero price and in the outer handler, paired with the
  calls made to the AI service. The history fetch of part C is not inside an inner
  \<^verbatim>\<open>try\<close>: when it raises, the outer handler returns \<^verbatim>\<open>None\<close>.
\<close>

definition get_stock_data ::
  "'f pylib \<Rightarrow> string option \<Rightarrow> string list \<Rightarrow> 'f ticker_env \<Rightarrow> string
     \<Rightarrow> (string \<times> 'f json) list option \<Rightarrow> 'f json option \<times> (string \<times> string) list" where
  "get_stock_data lib GEMINI_API_KEY MODEL_PRIORITY env target_id old_data =
     (let stock_id = py_replace ''.TW'' [] target_id;
          (price, change_pct) = quote_facts lib env
      in if is_zero lib price then (None, [])
         else
           (let news_summary = news_summary_of env in
            case history_1y env of
              None \<Rightarrow> (None, [])
            | Some hist \<Rightarrow>
                (let chart_dates = chart_dates_of hist;
                     chart_prices = chart_prices_of lib hist;
                     chart_data_for_ai = chart_data_for_ai_of chart_dates chart_prices
                 in case ai_analysis lib GEMINI_API_KEY MODEL_PRIORITY env stock_id price
                           change_pct chart_data_for_ai news_summary of
                      (None, calls) \<Rightarrow> (None, calls)
                    | (Some (name, ai_res, model_used), calls) \<Rightarrow>
                        (merge_record lib env stock_id name old_data price change_pct
                           chart_dates chart_prices ai_res model_used, calls))))"

section \<open>The run (\<^verbatim>\<open>__main__\<close>)\<close>

text \<open>
  \<^verbatim>\<open>get_current_list\<close>: the argument is the text of \<^verbatim>\<open>data.json\<close>, \<open>None\<close> when the file
  does not exist or cannot be read.
\<close>

definition get_current_list :: "'f pylib \<Rightarrow> string option \<Rightarrow> 'f json list" where
  "get_current_list lib data_json =
     (case data_json of
        None \<Rightarrow> []
      | Some text \<Rightarrow>
          (case json_loads lib text of
             Some (JArr d) \<Rightarrow> d
           | _ \<Rightarrow> []))"

text \<open>
  The items of \<^verbatim>\<open>current\<close> with their ids, for
  \<^verbatim>\<open>old_map = {item['id']: item for item in current}\<close>. \<open>None\<close> when the run ends with an
  uncaught exception before anything is written: an item that is not a dict
  (\<^verbatim>\<open>TypeError\<close>) or has no id (\<^verbatim>\<open>KeyError\<close>), an id that is a list or a dict
  (\<^verbatim>\<open>TypeError\<close>, unhashable), and any other id that is not a string, on which
  \<^verbatim>\<open>target_id.replace\<close>, outside the \<^verbatim>\<open>try\<close> of \<^verbatim>\<open>get_stock_data\<close>, raises
  \<^verbatim>\<open>AttributeError\<close> when its turn comes.
\<close>

fun old_items :: "'f json list \<Rightarrow> (string \<times> (string \<times> 'f json) list) list option" where
  "old_items [] = Some []"
| "old_items (item # rest) =
     (case item of
        JObj d \<Rightarrow>
          (case map_of d ''id'' of
             Some (JStr s) \<Rightarrow> map_option ((#) (s, d)) (old_items rest)
           | _ \<Rightarrow> None)
      | _ \<Rightarrow> None)"

text \<open>
  The dict built from the items: a key keeps the place of its first occurrence and takes
  the value of its last one.
\<close>

definition old_map_of ::
  "(string \<times> (string \<times> 'f json) list) list \<Rightarrow> (string \<times> (string \<times> 'f json) list) list" where
  "old_map_of items = foldl (\<lambda>m (k, d). AList.update k d m) [] items"

text \<open>
  \<^verbatim>\<open>targets\<close> and \<^verbatim>\<open>old_map\<close> after the \<^verbatim>\<open>--add\<close> handling; \<open>add\<close> is \<^verbatim>\<open>args.add\<close>,
  \<open>None\<close> when the flag is absent.
\<close>

definition add_target ::
  "string option \<Rightarrow> (string \<times> (string \<times> 'f json) list) list
     \<Rightarrow> string list \<times> (string \<times> (string \<times> 'f json) list) list" where
  "add_target add old_map =
     (let targets = map fst old_map in
      case add of
        None \<Rightarrow> (targets, old_map)
      | Some a \<Rightarrow>
          if a \<noteq> [] then
            (let nid = py_upper (py_strip a) in
             if nid \<notin> set targets
             then (nid # targets, AList.update nid [(''category'', JStr new_category)] old_map)
             else (targets, old_map))
          else (targets, old_map))"

text \<open>
  The body of the loop for one \<^verbatim>\<open>sid\<close>: what it appends to \<^verbatim>\<open>final\<close>. A returned record
  is a non-empty dict, hence true.
\<close>

definition process_target ::
  "'f pylib \<Rightarrow> string option \<Rightarrow> string list \<Rightarrow> 'f ticker_env
     \<Rightarrow> (string \<times> (string \<times> 'f json) list) list \<Rightarrow> string \<Rightarrow> 'f json list" where
  "process_target lib GEMINI_API_KEY MODEL_PRIORITY env old_map sid =
     (let old = map_of old_map sid;
          res = fst (get_stock_data lib GEMINI_API_KEY MODEL_PRIORITY env sid old)
      in case res of
           Some r \<Rightarrow> [r]
         | None \<Rightarrow>
             (case map_of old_map sid of
                Some d \<Rightarrow> if ''name'' \<in> set (map fst d) then [JObj d] else []
              | None \<Rightarrow> []))"

text \<open>
  The run: the list written to \<^verbatim>\<open>data.json\<close>, or \<open>None\<close> when the run ends with an
  uncaught exception. \<open>listing\<close> is the answer of the model discovery, \<open>world\<close> gives the
  outside world for each target, \<open>data_json\<close> the previous file and \<open>add\<close> the flag.
\<close>

definition main ::
  "'f pylib \<Rightarrow> string option \<Rightarrow> model_info list option \<Rightarrow> (string \<Rightarrow> 'f ticker_env)
     \<Rightarrow> string option \<Rightarrow> string option \<Rightarrow> 'f json list option" where
  "main lib GEMINI_API_KEY listing world data_json add =
     (let MODEL_PRIORITY = get_best_models listing;
          current = get_current_list lib data_json
      in case old_items current of
           None \<Rightarrow> None
         | Some items \<Rightarrow>
             (let (targets, old_map) = add_target add (old_map_of items)
              in Some (concat (map (\<lambda>sid. process_target lib GEMINI_API_KEY MODEL_PRIORITY
                                             (world sid) old_map sid) targets))))"

text \<open>Reading a field of a record along a path of keys.\<close>

fun json_path :: "'f json \<Rightarrow> string list \<Rightarrow> 'f json option" where
  "json_path v [] = Some v"
| "json_path v (k # ks) =
     (case v of
        JObj d \<Rightarrow> (case map_of d k of None \<Rightarrow> None | Some w \<Rightarrow> json_path w ks)
      | _ \<Rightarrow> None)"

section \<open>Exact decimal arithmetic\<close>

text \<open>
  One library of float operations, used in the examples: the numbers are rationals, the
  operations are exact, and ties are rounded to the even neighbour. It is not binary
  floating point (for 183.0 and 160.0 Python prints a change of +14.37%, exact
  arithmetic gives +14.38%); no theorem about the program depends on it.
\<close>

definition round_half_even :: "rat \<Rightarrow> int" where
  "round_half_even x =
     (let f = \<lfloor>x\<rfloor>; r = x - of_int f
      in if r < 1 / 2 then f else if 1 / 2 < r then f + 1 else if even f then f else f + 1)"

text \<open>Rounding to two decimals.\<close>

definition round2 :: "rat \<Rightarrow> rat" where
  "round2 x = of_int (round_half_even (x * 100)) / 100"

text \<open>The decimal digits of a non-negative integer.\<close>

function str_int :: "int \<Rightarrow> string" where
  "str_int n =
     (if n < 10 then [digit_char (nat n)] else str_int (n div 10) @ [digit_char (nat (n mod 10))])"
  by pat_completeness auto
termination
  by (relation "measure nat") auto

text \<open>The digits of \<open>|x|\<close> rounded to two decimals: integer part, point, two decimals.\<close>

definition digits_2f :: "rat \<Rightarrow> string" where
  "digits_2f x =
     (let n = round_half_even (\<bar>x\<bar> * 100)
      in str_int (n div 100) @ ''.''
           @ [digit_char (nat (n mod 100 div 10)), digit_char (nat (n mod 10))])"

text \<open>Two decimals, with a minus sign for a negative number and no sign otherwise.\<close>

definition fmt_2f :: "rat \<Rightarrow> string" where
  "fmt_2f x = (if x < 0 then ''-'' else []) @ digits_2f x"

text \<open>Two decimals; the sign is always written.\<close>

definition fmt_plus_2f :: "rat \<Rightarrow> string" where
  "fmt_plus_2f x = (if x < 0 then ''-'' else ''+'') @ digits_2f x"

definition is_digit :: "char \<Rightarrow> bool" where
  "is_digit c = (CHR ''0'' \<le> c \<and> c \<le> CHR ''9'')"

definition digit_val :: "char \<Rightarrow> int" where
  "digit_val c = of_char c - 48"

definition int_of_digits :: "string \<Rightarrow> int" where
  "int_of_digits ds = foldl (\<lambda>a c. 10 * a + digit_val c) 0 ds"

text \<open>
  Reading plain decimal text: an optional sign, digits, and optionally a point followed
  by digits; \<open>None\<close> on any other text.
\<close>

definition py_float :: "string \<Rightarrow> rat option" where
  "py_float s =
     (let neg = (s \<noteq> [] \<and> hd s = CHR ''-'');
          body = (if s \<noteq> [] \<and> (hd s = CHR ''-'' \<or> hd s = CHR ''+'') then tl s else s);
          ip = takeWhile is_digit body;
          rest = dropWhile is_digit body;
          sgn = (if neg then - 1 else 1)
      in if ip = [] then None
         else if rest = [] then Some (sgn * of_int (int_of_digits ip))
         else if hd rest = CHR ''.'' \<and> tl rest \<noteq> [] \<and> list_all is_digit (tl rest)
         then Some (sgn * (of_int (int_of_digits ip)
                           + of_int (int_of_digits (tl rest)) / 10 ^ length (tl rest)))
         else None)"

section \<open>Example inputs\<close>

text \<open>A discovery answer: three tiered models, one without content generation, one of no tier.\<close>

definition example_listing :: "model_info list" where
  "example_listing =
     [\<lparr>model_name = ''models/gemini-1.5-flash'',
       supported_generation_methods = [''generateContent'', ''countTokens'']\<rparr>,
      \<lparr>model_name = ''models/gemini-2.0-pro'', supported_generation_methods = [''generateContent'']\<rparr>,
      \<lparr>model_name = ''models/embedding-001'', supported_generation_methods = [''embedContent'']\<rparr>,
      \<lparr>model_name = ''models/gemini-exp-1206'', supported_generation_methods = [''generateContent'']\<rparr>,
      \<lparr>model_name = ''models/aqa'', supported_generation_methods = [''generateContent'']\<rparr>]"

text \<open>
  An answer of the AI service inside a code fence: a JSON object that brings its own
  river-chart dates and prices, and one band.
\<close>

definition dq :: "string \<Rightarrow> string" where
  "dq s = CHR 0x22 # s @ [CHR 0x22]"

definition example_answer_json :: string where
  "example_answer_json =
     ''{'' @ dq ''financials'' @ '': {'' @ dq ''valuation'' @ '': {'' @ dq ''pe_status'' @ '': ''
       @ dq ''fair'' @ '', '' @ dq ''pe_river_data'' @ '': {'' @ dq ''dates'' @ '': [''
       @ dq ''1999-01'' @ ''], '' @ dq ''price'' @ '': [1], '' @ dq ''pe20'' @ '': [30]}}}, ''
       @ dq ''memo'' @ '': '' @ dq ''sell'' @ '', '' @ dq ''category'' @ '': '' @ dq ''junk'' @ ''}''"

definition example_answer :: "rat json" where
  "example_answer =
     JObj [(''financials'', JObj [(''valuation'', JObj
              [(''pe_status'', JStr ''fair''),
               (''pe_river_data'', JObj
                  [(''dates'', JArr [JStr ''1999-01'']),
                   (''price'', JArr [JInt 1]),
                   (''pe20'', JArr [JInt 30])])])]),
           (''memo'', JStr ''sell''),
           (''category'', JStr ''junk'')]"

definition example_answer_text :: string where
  "example_answer_text = ''```json'' @ [CHR 0x0A] @ example_answer_json @ [CHR 0x0A] @ ''```''"

text \<open>The previous record of ticker 2330, with a memo and a category of the user.\<close>

definition example_old :: "(string \<times> rat json) list" where
  "example_old =
     [(''id'', JStr ''2330''), (''name'', JStr ''TSMC''), (''category'', JStr ''core holding''),
      (''memo'', JStr ''watch for earnings''), (''ai_model'', JStr ''gemini-1.0-pro'')]"

text \<open>
  The previous \<^verbatim>\<open>data.json\<close>: the record of 2330 and a record of 2317 that has no name.
\<close>

definition example_data :: "rat json list" where
  "example_data = [JObj example_old, JObj [(''id'', JStr ''2317''), (''category'', JStr ''watch'')]]"

definition example_data_json :: string where
  "example_data_json =
     ''[{'' @ dq ''id'' @ '': '' @ dq ''2330'' @ '', '' @ dq ''name'' @ '': '' @ dq ''TSMC'' @ '', ''
       @ dq ''category'' @ '': '' @ dq ''core holding'' @ '', '' @ dq ''memo'' @ '': ''
       @ dq ''watch for earnings'' @ '', '' @ dq ''ai_model'' @ '': '' @ dq ''gemini-1.0-pro''
       @ ''}, {'' @ dq ''id'' @ '': '' @ dq ''2317'' @ '', '' @ dq ''category'' @ '': ''
       @ dq ''watch'' @ ''}]''"

text \<open>
  Library functions for the examples: \<open>json_loads\<close> knows the answer above and the empty
  list, and fails on every other text; the two printers return fixed texts; the float
  operations are those of exact decimal arithmetic.
\<close>

definition example_lib :: "rat pylib" where
  "example_lib =
     \<lparr>json_loads = (\<lambda>s. if s = example_answer_json then Some example_answer
                         else if s = example_data_json then Some (JArr example_data)
                         else if s = ''[]'' then Some (JArr []) else None),
      json_dumps = (\<lambda>v. ''[...]''),
      str_other = (\<lambda>v. ''7.0''),
      float_is_zero = (\<lambda>x. x = 0),
      float_sub = (\<lambda>x y. x - y),
      float_add = (\<lambda>x y. x + y),
      float_mul = (\<lambda>x y. x * y),
      float_div = (\<lambda>x y. if y = 0 then None else Some (x / y)),
      float_of_int = of_int,
      format_2f = fmt_2f,
      format_plus_2f = fmt_plus_2f,
      float_of_str = py_float,
      float_round2 = round2\<rparr>"

text \<open>
  The world for ticker 2330: price 550, previous close 540, two months of history, one
  news item. The first model raises, the second answers with text that is not JSON, the
  third with the fenced answer above.
\<close>

definition example_env :: "rat ticker_env" where
  "example_env =
     \<lparr>fast_info_last_price = Some (Num 550),
      fast_info_previous_close = Some (Num 540),
      history_5d = None,
      ticker_news = Some [Some (''2024-11-01'', ''Record revenue'')],
      history_1y = Some [((2024, 10), 8251 / 8), ((2024, 11), 1065)],
      ticker_info = Some [(''longName'', JStr ''TSMC''), (''priceToBook'', JNum 7)],
      generate_content =
        (\<lambda>i m prompt. if i = 0 then None
                      else if i = 1 then Some ''Sorry, no JSON today.''
                      else Some example_answer_text),
      now_text = ''2024-11-30 09:00''\<rparr>"

definition example_models :: "string list" where
  "example_models = [''models/gemini-exp-1206'', ''models/gemini-2.0-pro'', ''models/gemini-1.5-flash'']"

text \<open>The record expected for ticker 2330 in the example world, with an API key.\<close>

definition example_record :: "rat json" where
  "example_record =
     JObj
       [(''id'', JStr ''2330''),
        (''name'', JStr ''TSMC''),
        (''category'', JStr ''core holding''),
        (''lastUpdated'', JStr ''2024-11-30 09:00''),
        (''ai_model'', JStr ''gemini-1.5-flash''),
        (''memo'', JStr ''watch for earnings''),
        (''basicInfo'', JObj
           [(''price'', JStr ''550.00''),
            (''change'', JStr ''+9.99''),
            (''changePercent'', JStr ''+1.85%'')]),
        (''industry'', JObj []),
        (''news_events'', JObj [(''news'', JArr []), (''calendar'', JArr [])]),
        (''financials'', JObj
           [(''eps_table'', JArr []),
            (''revenue_trend'', JArr []),
            (''valuation'', JObj
               [(''pe_status'', JStr ''fair''),
                (''pb'', JStr ''7.0''),
                (''roe'', JStr ''-''),
                (''pe_river_data'', JObj
                   [(''dates'', JArr [JStr ''2024-10'', JStr ''2024-11'']),
                    (''price'', JArr [JNum (51569 / 50), JNum 1065]),
                    (''pe20'', JArr [JInt 30]),
                    (''pe16'', JArr []),
                    (''pe12'', JArr [])])])]),
        (''technical'', JObj [(''signal_light'', JStr ''stable'')]),
        (''dividend'', JObj [])]"

text \<open>
  The record expected for a new ticker 2454 in the example world, without an API key.
\<close>

definition example_new_record :: "rat json" where
  "example_new_record =
     JObj
       [(''id'', JStr ''2454''),
        (''name'', JStr ''2454''),
        (''category'', JStr new_category),
        (''lastUpdated'', JStr ''2024-11-30 09:00''),
        (''ai_model'', JStr ''N/A''),
        (''memo'', JStr []),
        (''basicInfo'', JObj
           [(''price'', JStr ''550.00''),
            (''change'', JStr ''+9.99''),
            (''changePercent'', JStr ''+1.85%'')]),
        (''industry'', JObj []),
        (''news_events'', JObj [(''news'', JArr []), (''calendar'', JArr [])]),
        (''financials'', JObj
           [(''eps_table'', JArr []),
            (''revenue_trend'', JArr []),
            (''valuation'', JObj
               [(''pe_status'', JStr ''-''),
                (''pb'', JStr ''7.0''),
                (''roe'', JStr ''-''),
                (''pe_river_data'', JObj
                   [(''dates'', JArr [JStr ''2024-10'', JStr ''2024-11'']),
                    (''price'', JArr [JNum (51569 / 50), JNum 1065]),
                    (''pe20'', JArr []),
                    (''pe16'', JArr []),
                    (''pe12'', JArr [])])])]),
        (''technical'', JObj [(''signal_light'', JStr ''stable'')]),
        (''dividend'', JObj [])]"

text \<open>
  The world of a run: the new ticker 2454 has the market data above; for every other
  ticker the quote snapshot raises and the 5-day history is empty.
\<close>

definition failing_env :: "rat ticker_env" where
  "failing_env = example_env\<lparr>fast_info_last_price := None, history_5d := Some []\<rparr>"

definition example_world :: "string \<Rightarrow> rat ticker_env" where
  "example_world sid = (if sid = ''2454.TW'' then example_env else failing_env)"

section \<open>Properties of the model catalog builder\<close>

lemma sorted_rev_filter_sort_reverse:
  "sorted (rev (filter P (sort_reverse xs)))"
  by (simp add: sort_reverse_def rev_filter sorted_wrt_filter)

lemma mset_filter_sort_reverse:
  "mset (filter P (sort_reverse xs)) = filter_mset P (mset xs)"
  by (simp add: sort_reverse_def)

lemma get_best_models_Some:
  "get_best_models (Some ms) =
     (let a = sort_reverse (capable ms);
          fl = filter (\<lambda>m. str_in ''exp'' m) a
             @ filter (\<lambda>m. str_in ''pro'' m \<and> \<not> str_in ''exp'' m) a
             @ filter (\<lambda>m. str_in ''flash'' m \<and> \<not> str_in ''exp'' m) a
      in if fl \<noteq> [] then fl else defaults)"
  by (simp add: get_best_models_def capable_def Let_def)

lemma tiers_empty_iff:
  "filter (\<lambda>m. str_in ''exp'' m) (sort_reverse xs)
     @ filter (\<lambda>m. str_in ''pro'' m \<and> \<not> str_in ''exp'' m) (sort_reverse xs)
     @ filter (\<lambda>m. str_in ''flash'' m \<and> \<not> str_in ''exp'' m) (sort_reverse xs) = []
   \<longleftrightarrow> (\<forall>n \<in> set xs. \<not> str_in ''exp'' n \<and> \<not> str_in ''pro'' n \<and> \<not> str_in ''flash'' n)"
  by (auto simp: sort_reverse_def filter_empty_conv)

text \<open>
  C4. The catalog builder is total and never returns the empty list. On a discovery
  error, and when no discovered content-generation-capable identifier contains
  "exp", "pro" or "flash", it returns the two defaults (pro, then flash). Otherwise the
  result is E @ P @ F, each part in descending lexicographic order, where E holds exactly
  the capable identifiers containing "exp", P those containing "pro" and not "exp", F
  those containing "flash" and not "exp" (with their multiplicities); an identifier of no
  tier occurs in none of the parts.
\<close>

theorem get_best_models_tiers:
  "get_best_models listing \<noteq> [] \<and>
   defaults = [''models/gemini-1.5-pro'', ''models/gemini-1.5-flash''] \<and>
   (case listing of
      None \<Rightarrow> get_best_models listing = defaults
    | Some ms \<Rightarrow>
        if \<forall>n \<in> set (capable ms).
             \<not> str_in ''exp'' n \<and> \<not> str_in ''pro'' n \<and> \<not> str_in ''flash'' n
        then get_best_models listing = defaults
        else \<exists>E P F.
               get_best_models listing = E @ P @ F \<and>
               sorted (rev E) \<and> sorted (rev P) \<and> sorted (rev F) \<and>
               mset E = filter_mset (\<lambda>m. str_in ''exp'' m) (mset (capable ms)) \<and>
               mset P = filter_mset (\<lambda>m. str_in ''pro'' m \<and> \<not> str_in ''exp'' m)
                          (mset (capable ms)) \<and>
               mset F = filter_mset (\<lambda>m. str_in ''flash'' m \<and> \<not> str_in ''exp'' m)
                          (mset (capable ms)))"
proof (intro conjI)
  show "get_best_models listing \<noteq> []"
    by (cases listing) (simp_all add: get_best_models_Some get_best_models_def defaults_def Let_def)
  show "defaults = [''models/gemini-1.5-pro'', ''models/gemini-1.5-flash'']"
    by (simp add: defaults_def)
  show "case listing of
      None \<Rightarrow> get_best_models listing = defaults
    | Some ms \<Rightarrow>
        if \<forall>n \<in> set (capable ms).
             \<not> str_in ''exp'' n \<and> \<not> str_in ''pro'' n \<and> \<not> str_in ''flash'' n
        then get_best_models listing = defaults
        else \<exists>E P F.
               get_best_models listing = E @ P @ F \<and>
               sorted (rev E) \<and> sorted (rev P) \<and> sorted (rev F) \<and>
               mset E = filter_mset (\<lambda>m. str_in ''exp'' m) (mset (capable ms)) \<and>
               mset P = filter_mset (\<lambda>m. str_in ''pro'' m \<and> \<not> str_in ''exp'' m)
                          (mset (capable ms)) \<and>
               mset F = filter_mset (\<lambda>m. str_in ''flash'' m \<and> \<not> str_in ''exp'' m)
                          (mset (capable ms))"
  proof (cases listing)
    case None
    then show ?thesis by (simp add: get_best_models_def)
  next
    case (Some ms)
    let ?a = "sort_reverse (capable ms)"
    let ?E = "filter (\<lambda>m. str_in ''exp'' m) ?a"
    let ?P = "filter (\<lambda>m. str_in ''pro'' m \<and> \<not> str_in ''exp'' m) ?a"
    let ?F = "filter (\<lambda>m. str_in ''flash'' m \<and> \<not> str_in ''exp'' m) ?a"
    show ?thesis
    proof (cases "\<forall>n \<in> set (capable ms).
             \<not> str_in ''exp'' n \<and> \<not> str_in ''pro'' n \<and> \<not> str_in ''flash'' n")
      case True
      then have "?E @ ?P @ ?F = []"
        using tiers_empty_iff [of "capable ms"] by blast
      then have "get_best_models (Some ms) = defaults"
        by (simp add: get_best_models_Some Let_def)
      then show ?thesis
        by (simp only: Some option.case if_P [OF True])
    next
      case False
      then have "?E @ ?P @ ?F \<noteq> []"
        using tiers_empty_iff [of "capable ms"] by blast
      then have eq: "get_best_models (Some ms) = ?E @ ?P @ ?F"
        by (simp add: get_best_models_Some Let_def)
      have ex: "\<exists>E P F.
               get_best_models (Some ms) = E @ P @ F \<and>
               sorted (rev E) \<and> sorted (rev P) \<and> sorted (rev F) \<and>
               mset E = filter_mset (\<lambda>m. str_in ''exp'' m) (mset (capable ms)) \<and>
               mset P = filter_mset (\<lambda>m. str_in ''pro'' m \<and> \<not> str_in ''exp'' m)
                          (mset (capable ms)) \<and>
               mset F = filter_mset (\<lambda>m. str_in ''flash'' m \<and> \<not> str_in ''exp'' m)
                          (mset (capable ms))"
        using eq sorted_rev_filter_sort_reverse mset_filter_sort_reverse by blast
      show ?thesis
        by (simp only: Some option.case if_not_P [OF False] ex)
    qed
  qed
qed

lemma example_listing_result:
  "get_best_models (Some example_listing) =
     [''models/gemini-exp-1206'', ''models/gemini-2.0-pro'', ''models/gemini-1.5-flash'']"
  by code_simp

lemma example_listing_tiered:
  "\<not> (\<forall>n \<in> set (capable example_listing).
         \<not> str_in ''exp'' n \<and> \<not> str_in ''pro'' n \<and> \<not> str_in ''flash'' n)"
  by code_simp

theorem get_best_models_tiers_witness:
  "get_best_models (Some example_listing) =
     [''models/gemini-exp-1206'', ''models/gemini-2.0-pro'', ''models/gemini-1.5-flash''] \<and>
   get_best_models None = [''models/gemini-1.5-pro'', ''models/gemini-1.5-flash''] \<and>
   (\<exists>E P F. get_best_models (Some example_listing) = E @ P @ F \<and>
      sorted (rev E) \<and> sorted (rev P) \<and> sorted (rev F) \<and>
      mset E = filter_mset (\<lambda>m. str_in ''exp'' m) (mset (capable example_listing)) \<and>
      mset P = filter_mset (\<lambda>m. str_in ''pro'' m \<and> \<not> str_in ''exp'' m)
                 (mset (capable example_listing)) \<and>
      mset F = filter_mset (\<lambda>m. str_in ''flash'' m \<and> \<not> str_in ''exp'' m)
                 (mset (capable example_listing)))"
proof -
  have none: "get_best_models None = [''models/gemini-1.5-pro'', ''models/gemini-1.5-flash'']"
    using get_best_models_tiers [of None] by simp
  show ?thesis
    using get_best_models_tiers [of "Some example_listing"]
      example_listing_result example_listing_tiered none
    by (simp only: option.case if_not_P simp_thms)
qed

section \<open>What a returned record tells\<close>

lemma get_stock_data_Some:
  assumes "fst (get_stock_data lib key models env target_id old_data) = Some r"
  shows "\<exists>price change_pct hist name ai_res model_used.
           quote_facts lib env = (price, change_pct) \<and> \<not> is_zero lib price \<and>
           history_1y env = Some hist \<and>
           ai_analysis lib key models env (py_replace ''.TW'' [] target_id) price change_pct
               (chart_data_for_ai_of (chart_dates_of hist) (chart_prices_of lib hist))
               (news_summary_of env)
             = (Some (name, ai_res, model_used),
                snd (get_stock_data lib key models env target_id old_data)) \<and>
           merge_record lib env (py_replace ''.TW'' [] target_id) name old_data price change_pct
               (chart_dates_of hist) (chart_prices_of lib hist) ai_res model_used = Some r"
  using assms
  by (auto simp: get_stock_data_def Let_def split: prod.splits if_splits option.splits)

lemma merge_record_Some:
  assumes "merge_record lib env stock_id name old_data price change_pct chart_dates chart_prices
             ai_res model_used = Some r"
  shows "\<exists>fin val riv pe20 pe16 pe12 p change industry news_events eps_table revenue_trend
            pe_status info roe technical dividend.
           py_get ai_res ''financials'' (JObj []) = Some fin \<and>
           py_get fin ''valuation'' (JObj []) = Some val \<and>
           py_get val ''pe_river_data'' (JObj []) = Some riv \<and>
           py_get riv ''pe20'' (JArr []) = Some pe20 \<and>
           py_get riv ''pe16'' (JArr []) = Some pe16 \<and>
           py_get riv ''pe12'' (JArr []) = Some pe12 \<and>
           price = Num p \<and>
           change_of lib price change_pct = Some change \<and>
           py_get ai_res ''industry'' (JObj []) = Some industry \<and>
           py_get ai_res ''news_events'' (JObj [(''news'', JArr []), (''calendar'', JArr [])])
             = Some news_events \<and>
           py_get fin ''eps_table'' (JArr []) = Some eps_table \<and>
           py_get fin ''revenue_trend'' (JArr []) = Some revenue_trend \<and>
           py_get val ''pe_status'' (JStr ''-'') = Some pe_status \<and>
           ticker_info env = Some info \<and>
           py_get val ''roe'' (JStr ''-'') = Some roe \<and>
           py_get ai_res ''technical'' (JObj [(''signal_light'', JStr ''stable'')]) = Some technical \<and>
           py_get ai_res ''dividend'' (JObj []) = Some dividend \<and>
           r = JObj
         [(''id'', JStr stock_id),
          (''name'', name),
          (''category'', carried_over old_data ''category'' (JStr new_category)),
          (''lastUpdated'', JStr (now_text env)),
          (''ai_model'', JStr model_used),
          (''memo'', carried_over old_data ''memo'' (JStr [])),
          (''basicInfo'', JObj
             [(''price'', JStr (format_2f lib p)),
              (''change'', JStr change),
              (''changePercent'', JStr change_pct)]),
          (''industry'', industry),
          (''news_events'', news_events),
          (''financials'', JObj
             [(''eps_table'', eps_table),
              (''revenue_trend'', revenue_trend),
              (''valuation'', JObj
                 [(''pe_status'', pe_status),
                  (''pb'', JStr (py_str lib (dict_get info ''priceToBook'' (JStr ''-'')))),
                  (''roe'', roe),
                  (''pe_river_data'', JObj
                     [(''dates'', JArr (map JStr chart_dates)),
                      (''price'', JArr (map JNum chart_prices)),
                      (''pe20'', pe20),
                      (''pe16'', pe16),
                      (''pe12'', pe12)])])]),
          (''technical'', technical),
          (''dividend'', dividend)]"
  using assms
  by (auto simp: merge_record_def bind_eq_Some_conv split: pynum.splits)


section \<open>Properties of the prompt\<close>

lemma scan_append:
  "scan m (s @ t) =
     (case scan m s of
        None \<Rightarrow> None
      | Some (m', fs) \<Rightarrow> map_option (\<lambda>(m'', gs). (m'', fs @ gs)) (scan m' t))"
proof (induction s arbitrary: m)
  case Nil
  show ?case by (simp add: option.map_ident case_prod_unfold)
next
  case (Cons c cs)
  show ?case
    by (cases m) (auto simp: Cons.IH option.map_comp comp_def case_prod_unfold split: option.splits)
qed

lemma scan_concat_lines:
  "scan m (concat (map (\<lambda>l. l @ [CHR 0x0A]) ls)) = scan_lines m ls"
proof (induction ls arbitrary: m)
  case Nil
  show ?case by simp
next
  case (Cons l ls)
  have "scan m ((l @ [CHR 0x0A]) @ concat (map (\<lambda>l. l @ [CHR 0x0A]) ls)) = scan_lines m (l # ls)"
    by (subst scan_append) (simp add: Cons.IH split: option.splits)
  then show ?case by simp
qed

lemma format_go_cong:
  "scan m s = Some (m', fs) \<Longrightarrow> (\<And>f. f \<in> set fs \<Longrightarrow> map_of kw1 f = map_of kw2 f)
   \<Longrightarrow> format_go kw1 m s = format_go kw2 m s"
proof (induction s arbitrary: m fs)
  case Nil
  then show ?case by simp
next
  case (Cons c cs)
  show ?case
  proof (cases m)
    case Text
    with Cons.prems Cons.IH show ?thesis by (auto split: if_splits)
  next
    case AfterOpen
    with Cons.prems Cons.IH show ?thesis by (auto split: if_splits)
  next
    case AfterClose
    with Cons.prems Cons.IH show ?thesis by (auto split: if_splits)
  next
    case (InField f)
    show ?thesis
    proof (cases "c = CHR ''}''")
      case True
      from Cons.prems(1) InField True obtain gs where
        sc: "scan Text cs = Some (m', gs)" and fs: "fs = f # gs"
        by auto
      have look: "map_of kw1 f = map_of kw2 f"
        using Cons.prems(2) fs by simp
      have rest: "format_go kw1 Text cs = format_go kw2 Text cs"
        using sc Cons.prems(2) fs by (intro Cons.IH [of Text gs]) simp_all
      show ?thesis using InField True look rest by (simp split: option.splits)
    next
      case False
      with Cons.prems Cons.IH InField show ?thesis by (auto split: if_splits)
    qed
  qed
qed

lemma format_go_ok:
  "scan m s = Some (Text, fs) \<Longrightarrow> (\<And>f. f \<in> set fs \<Longrightarrow> map_of kw f \<noteq> None)
   \<Longrightarrow> \<exists>r. format_go kw m s = Inr r"
proof (induction s arbitrary: m fs)
  case Nil
  then show ?case by simp
next
  case (Cons c cs)
  show ?case
  proof (cases m)
    case Text
    show ?thesis
    proof (cases "c = CHR ''{'' \<or> c = CHR ''}''")
      case True
      with Cons.prems Cons.IH Text show ?thesis by (auto split: if_splits)
    next
      case False
      with Cons.prems Text have "scan Text cs = Some (Text, fs)" by simp
      from Cons.IH [OF this] Cons.prems(2) obtain r where "format_go kw Text cs = Inr r" by blast
      with False Text show ?thesis by simp
    qed
  next
    case AfterOpen
    show ?thesis
    proof (cases "c = CHR ''{''")
      case True
      with Cons.prems AfterOpen have "scan Text cs = Some (Text, fs)" by simp
      from Cons.IH [OF this] Cons.prems(2) obtain r where "format_go kw Text cs = Inr r" by blast
      with True AfterOpen show ?thesis by simp
    next
      case False
      with Cons.prems Cons.IH AfterOpen show ?thesis by (auto split: if_splits)
    qed
  next
    case AfterClose
    with Cons.prems have c: "c = CHR ''}''" and "scan Text cs = Some (Text, fs)"
      by (auto split: if_splits)
    from Cons.IH [OF this(2)] Cons.prems(2) obtain r where "format_go kw Text cs = Inr r" by blast
    with c AfterClose show ?thesis by simp
  next
    case (InField f)
    show ?thesis
    proof (cases "c = CHR ''}''")
      case True
      from Cons.prems(1) InField True obtain gs where
        sc: "scan Text cs = Some (Text, gs)" and fs: "fs = f # gs"
        by auto
      from Cons.prems(2) fs obtain v where v: "map_of kw f = Some v" by auto
      from Cons.IH [OF sc] Cons.prems(2) fs obtain r where "format_go kw Text cs = Inr r"
        by auto
      with True InField v show ?thesis by simp
    next
      case False
      with Cons.prems Cons.IH InField show ?thesis by (auto split: if_splits)
    qed
  qed
qed

lemma scan_template_lines:
  "scan_lines Text template_lines =
     Some (Text, [''name'', ''stock_id'', ''price'', ''change_pct'', ''chart_dump''])"
  by code_simp

lemma scan_prompt_template:
  "scan Text PROMPT_TEMPLATE =
     Some (Text, [''name'', ''stock_id'', ''price'', ''change_pct'', ''chart_dump''])"
  by (simp add: PROMPT_TEMPLATE_def scan_concat_lines scan_template_lines)

lemma compose_prompt_news:
  "compose_prompt lib name stock_id price_text change_pct chart n1 =
   compose_prompt lib name stock_id price_text change_pct chart n2"
  unfolding compose_prompt_def py_format_def
  by (rule format_go_cong [OF scan_prompt_template]) auto

lemma compose_prompt_ok:
  "\<exists>prompt. compose_prompt lib name stock_id price_text change_pct chart n = Inr prompt"
  unfolding compose_prompt_def py_format_def
  by (rule format_go_ok [OF scan_prompt_template]) auto

lemma ai_analysis_news:
  assumes "ticker_info env1 = ticker_info env2" "generate_content env1 = generate_content env2"
  shows "ai_analysis lib key models env1 stock_id price change_pct chart n1 =
         ai_analysis lib key models env2 stock_id price change_pct chart n2"
  using assms compose_prompt_news [of lib _ stock_id _ change_pct chart n1 n2]
  by (simp add: ai_analysis_def Let_def split: option.splits pynum.splits sum.splits)

lemma merge_record_env:
  assumes "ticker_info env1 = ticker_info env2" "now_text env1 = now_text env2"
  shows "merge_record lib env1 sid name old price cp cd cpr ai mu =
         merge_record lib env2 sid name old price cp cd cpr ai mu"
  using assms by (simp add: merge_record_def)

lemma quote_facts_news:
  "quote_facts lib (env\<lparr>ticker_news := news\<rparr>) = quote_facts lib env"
  by (simp add: quote_facts_def split: option.splits)

text \<open>
  C10. The prompt does not depend on the news block: the template names no
  \<open>news_summary\<close> field, so the formatted text is the same for any two news blocks, and
  two runs of a ticker in worlds that differ only in the news return the same record and
  send the same prompts to the same models (the second component of the result lists
  every call with its prompt).
\<close>

theorem prompt_independent_of_news:
  "compose_prompt lib name stock_id price_text change_pct chart n1 =
     compose_prompt lib name stock_id price_text change_pct chart n2 \<and>
   get_stock_data lib key models (env\<lparr>ticker_news := news1\<rparr>) target_id old_data =
     get_stock_data lib key models (env\<lparr>ticker_news := news2\<rparr>) target_id old_data"
proof
  show "compose_prompt lib name stock_id price_text change_pct chart n1 =
     compose_prompt lib name stock_id price_text change_pct chart n2"
    by (rule compose_prompt_news)
  have a: "\<And>sid p c ch. ai_analysis lib key models (env\<lparr>ticker_news := news1\<rparr>) sid p c ch
              (news_summary_of (env\<lparr>ticker_news := news1\<rparr>)) =
           ai_analysis lib key models (env\<lparr>ticker_news := news2\<rparr>) sid p c ch
              (news_summary_of (env\<lparr>ticker_news := news2\<rparr>))"
    by (rule ai_analysis_news) simp_all
  have m: "\<And>sid name old price cp cd cpr ai mu.
           merge_record lib (env\<lparr>ticker_news := news1\<rparr>) sid name old price cp cd cpr ai mu =
           merge_record lib (env\<lparr>ticker_news := news2\<rparr>) sid name old price cp cd cpr ai mu"
    by (rule merge_record_env) simp_all
  show "get_stock_data lib key models (env\<lparr>ticker_news := news1\<rparr>) target_id old_data =
     get_stock_data lib key models (env\<lparr>ticker_news := news2\<rparr>) target_id old_data"
    by (simp add: get_stock_data_def Let_def quote_facts_news a m
          split: prod.splits option.splits)
qed

theorem prompt_independent_of_news_witness:
  "news_summary_of (example_env\<lparr>ticker_news := None\<rparr>) \<noteq>
     news_summary_of (example_env\<lparr>ticker_news := Some [Some (''2024-11-01'', ''Record revenue'')]\<rparr>) \<and>
   get_stock_data example_lib (Some ''key'') example_models
       (example_env\<lparr>ticker_news := None\<rparr>) ''2330'' None =
     get_stock_data example_lib (Some ''key'') example_models
       (example_env\<lparr>ticker_news := Some [Some (''2024-11-01'', ''Record revenue'')]\<rparr>) ''2330'' None"
proof
  show "news_summary_of (example_env\<lparr>ticker_news := None\<rparr>) \<noteq>
     news_summary_of (example_env\<lparr>ticker_news := Some [Some (''2024-11-01'', ''Record revenue'')]\<rparr>)"
    by (simp add: news_summary_of_def)
  show "get_stock_data example_lib (Some ''key'') example_models
       (example_env\<lparr>ticker_news := None\<rparr>) ''2330'' None =
     get_stock_data example_lib (Some ''key'') example_models
       (example_env\<lparr>ticker_news := Some [Some (''2024-11-01'', ''Record revenue'')]\<rparr>) ''2330'' None"
    using prompt_independent_of_news
      [where lib = example_lib and key = "Some ''key''" and models = example_models
         and env = example_env and ?news1.0 = None
         and ?news2.0 = "Some [Some (''2024-11-01'', ''Record revenue'')]"
         and target_id = "''2330''" and old_data = None]
    by (rule conjunct2)
qed

section \<open>Properties of the failover\<close>








section \<open>The example run\<close>

lemma merge_record_eq:
  assumes "py_get ai_res ''financials'' (JObj []) = Some fin"
    and "py_get fin ''valuation'' (JObj []) = Some val"
    and "py_get val ''pe_river_data'' (JObj []) = Some riv"
    and "py_get riv ''pe20'' (JArr []) = Some pe20"
    and "py_get riv ''pe16'' (JArr []) = Some pe16"
    and "py_get riv ''pe12'' (JArr []) = Some pe12"
    and "change_of lib (Num p) change_pct = Some change"
    and "py_get ai_res ''industry'' (JObj []) = Some industry"
    and "py_get ai_res ''news_events'' (JObj [(''news'', JArr []), (''calendar'', JArr [])])
           = Some news_events"
    and "py_get fin ''eps_table'' (JArr []) = Some eps_table"
    and "py_get fin ''revenue_trend'' (JArr []) = Some revenue_trend"
    and "py_get val ''pe_status'' (JStr ''-'') = Some pe_status"
    and "ticker_info env = Some info"
    and "py_get val ''roe'' (JStr ''-'') = Some roe"
    and "py_get ai_res ''technical'' (JObj [(''signal_light'', JStr ''stable'')]) = Some technical"
    and "py_get ai_res ''dividend'' (JObj []) = Some dividend"
  shows "merge_record lib env stock_id name old_data (Num p) change_pct chart_dates chart_prices
           ai_res model_used =
         Some (JObj
         [(''id'', JStr stock_id),
          (''name'', name),
          (''category'', carried_over old_data ''category'' (JStr new_category)),
          (''lastUpdated'', JStr (now_text env)),
          (''ai_model'', JStr model_used),
          (''memo'', carried_over old_data ''memo'' (JStr [])),
          (''basicInfo'', JObj
             [(''price'', JStr (format_2f lib p)),
              (''change'', JStr change),
              (''changePercent'', JStr change_pct)]),
          (''industry'', industry),
          (''news_events'', news_events),
          (''financials'', JObj
             [(''eps_table'', eps_table),
              (''revenue_trend'', revenue_trend),
              (''valuation'', JObj
                 [(''pe_status'', pe_status),
                  (''pb'', JStr (py_str lib (dict_get info ''priceToBook'' (JStr ''-'')))),
                  (''roe'', roe),
                  (''pe_river_data'', JObj
                     [(''dates'', JArr (map JStr chart_dates)),
                      (''price'', JArr (map JNum chart_prices)),
                      (''pe20'', pe20),
                      (''pe16'', pe16),
                      (''pe12'', pe12)])])]),
          (''technical'', technical),
          (''dividend'', dividend)])"
  unfolding merge_record_def by (simp add: assms)

lemma example_quote: "quote_facts example_lib example_env = (Num 550, ''+1.85%'')"
  by code_simp

lemma example_change: "change_of example_lib (Num 550) ''+1.85%'' = Some ''+9.99''"
  by code_simp

lemma example_price: "format_2f example_lib 550 = ''550.00''"
  by code_simp

lemma example_not_zero: "\<not> is_zero example_lib (Num 550)"
  by code_simp

lemma example_chart:
  "history_1y example_env = Some [((2024, 10), 8251 / 8), ((2024, 11), 1065)]"
  "chart_dates_of [((2024, 10), 8251 / 8 :: rat), ((2024, 11), 1065)] = [''2024-10'', ''2024-11'']"
  "chart_prices_of example_lib [((2024, 10), 8251 / 8), ((2024, 11), 1065)] = [51569 / 50, 1065]"
  by (simp add: example_env_def, code_simp, code_simp)

lemma example_info:
  "ticker_info example_env = Some [(''longName'', JStr ''TSMC''), (''priceToBook'', JNum 7)]"
  by (simp add: example_env_def)

lemma example_attempt_any:
  "attempt example_lib (generate_content example_env) prompt 0 m = None"
  "attempt example_lib (generate_content example_env) prompt 1 m = None"
  "attempt example_lib (generate_content example_env) prompt 2 m = Some example_answer"
  by (code_simp, code_simp, code_simp)

lemma example_failover:
  "failover example_lib (generate_content example_env) prompt 0 example_models =
     ((example_answer, ''gemini-1.5-flash''),
      [(''models/gemini-exp-1206'', prompt), (''models/gemini-2.0-pro'', prompt),
       (''models/gemini-1.5-flash'', prompt)])"
proof -
  have "py_replace ''models/'' [] ''models/gemini-1.5-flash'' = ''gemini-1.5-flash''"
    by code_simp
  then show ?thesis
    using example_attempt_any [of prompt]
    by (simp add: example_models_def numeral_2_eq_2)
qed

lemma example_merge:
  "merge_record example_lib example_env ''2330'' (JStr ''TSMC'') (Some example_old) (Num 550)
     ''+1.85%'' [''2024-10'', ''2024-11''] [51569 / 50, 1065] example_answer ''gemini-1.5-flash''
   = Some example_record"
proof -
  let ?R = "JObj [(''dates'', JArr [JStr ''1999-01'']), (''price'', JArr [JInt 1]),
                  (''pe20'', JArr [JInt 30 :: rat json])]"
  let ?V = "JObj [(''pe_status'', JStr ''fair''), (''pe_river_data'', ?R)]"
  let ?F = "JObj [(''valuation'', ?V)]"
  have a: "example_answer = JObj [(''financials'', ?F), (''memo'', JStr ''sell''),
                                  (''category'', JStr ''junk'')]"
    by (simp add: example_answer_def)
  have p1: "py_get example_answer ''financials'' (JObj []) = Some ?F"
    by (simp add: a py_get_def dict_get_def)
  have p2: "py_get ?F ''valuation'' (JObj []) = Some ?V"
    by (simp add: py_get_def dict_get_def)
  have p3: "py_get ?V ''pe_river_data'' (JObj []) = Some ?R"
    by (simp add: py_get_def dict_get_def)
  have p4: "py_get ?R ''pe20'' (JArr []) = Some (JArr [JInt 30])"
    by (simp add: py_get_def dict_get_def)
  have p5: "py_get ?R ''pe16'' (JArr []) = Some (JArr [])"
    by (simp add: py_get_def dict_get_def)
  have p6: "py_get ?R ''pe12'' (JArr []) = Some (JArr [])"
    by (simp add: py_get_def dict_get_def)
  have p8: "py_get example_answer ''industry'' (JObj []) = Some (JObj [])"
    by (simp add: a py_get_def dict_get_def)
  have p9: "py_get example_answer ''news_events'' (JObj [(''news'', JArr []), (''calendar'', JArr [])])
           = Some (JObj [(''news'', JArr []), (''calendar'', JArr [])])"
    by (simp add: a py_get_def dict_get_def)
  have p10: "py_get ?F ''eps_table'' (JArr []) = Some (JArr [])"
    by (simp add: py_get_def dict_get_def)
  have p11: "py_get ?F ''revenue_trend'' (JArr []) = Some (JArr [])"
    by (simp add: py_get_def dict_get_def)
  have p12: "py_get ?V ''pe_status'' (JStr ''-'') = Some (JStr ''fair'')"
    by (simp add: py_get_def dict_get_def)
  have p14: "py_get ?V ''roe'' (JStr ''-'') = Some (JStr ''-'')"
    by (simp add: py_get_def dict_get_def)
  have p15: "py_get example_answer ''technical'' (JObj [(''signal_light'', JStr ''stable'')])
           = Some (JObj [(''signal_light'', JStr ''stable'')])"
    by (simp add: a py_get_def dict_get_def)
  have p16: "py_get example_answer ''dividend'' (JObj []) = Some (JObj [])"
    by (simp add: a py_get_def dict_get_def)
  have c1: "carried_over (Some example_old) ''category'' (JStr new_category) = JStr ''core holding''"
    by (simp add: carried_over_def dict_get_def example_old_def)
  have c2: "carried_over (Some example_old) ''memo'' (JStr []) = JStr ''watch for earnings''"
    by (simp add: carried_over_def dict_get_def example_old_def)
  have pb: "py_str example_lib (dict_get [(''longName'', JStr ''TSMC''), (''priceToBook'', JNum 7)]
              ''priceToBook'' (JStr ''-'')) = ''7.0''"
    by (simp add: py_str_def dict_get_def example_lib_def)
  have now: "now_text example_env = ''2024-11-30 09:00''"
    by (simp add: example_env_def)
  show ?thesis
    unfolding merge_record_eq [OF p1 p2 p3 p4 p5 p6 example_change p8 p9 p10 p11 p12
        example_info p14 p15 p16]
    by (simp only: c1 c2 pb now example_price example_record_def list.map)
qed

lemma example_target: "py_replace ''.TW'' [] ''2330.TW'' = ''2330''"
  by code_simp

lemma example_run:
  "\<exists>prompt. get_stock_data example_lib (Some ''key'') example_models example_env ''2330.TW''
              (Some example_old) =
     (Some example_record,
      [(''models/gemini-exp-1206'', prompt), (''models/gemini-2.0-pro'', prompt),
       (''models/gemini-1.5-flash'', prompt)])"
proof -
  let ?chart = "chart_data_for_ai_of [''2024-10'', ''2024-11''] [51569 / 50, 1065 :: rat]"
  obtain prompt where p: "compose_prompt example_lib (JStr ''TSMC'') ''2330''
      (format_2f example_lib 550) ''+1.85%'' ?chart (news_summary_of example_env) = Inr prompt"
    using compose_prompt_ok by blast
  have ai: "ai_analysis example_lib (Some ''key'') example_models example_env ''2330'' (Num 550)
      ''+1.85%'' ?chart (news_summary_of example_env) =
      (Some (JStr ''TSMC'', example_answer, ''gemini-1.5-flash''),
       [(''models/gemini-exp-1206'', prompt), (''models/gemini-2.0-pro'', prompt),
       (''models/gemini-1.5-flash'', prompt)])"
    by (simp add: ai_analysis_def key_set_def example_info dict_get_def Let_def p example_failover)
  have "get_stock_data example_lib (Some ''key'') example_models example_env ''2330.TW''
              (Some example_old) =
     (Some example_record,
      [(''models/gemini-exp-1206'', prompt), (''models/gemini-2.0-pro'', prompt),
       (''models/gemini-1.5-flash'', prompt)])"
    by (simp add: get_stock_data_def Let_def example_target example_quote example_not_zero
          example_chart ai example_merge)
  then show ?thesis ..
qed

lemma example_merge_new:
  "merge_record example_lib example_env ''2454'' (JStr ''2454'')
     (Some [(''category'', JStr new_category)]) (Num 550)
     ''+1.85%'' [''2024-10'', ''2024-11''] [51569 / 50, 1065] (JObj []) ''N/A''
   = Some example_new_record"
proof -
  have g: "\<And>k dflt. py_get (JObj []) k dflt = Some (dflt :: rat json)"
    by (simp add: py_get_def dict_get_def)
  have c1: "carried_over (Some [(''category'', JStr new_category)]) ''category''
              (JStr new_category) = (JStr new_category :: rat json)"
    by (simp add: carried_over_def dict_get_def)
  have c2: "carried_over (Some [(''category'', JStr new_category)]) ''memo'' (JStr [])
              = (JStr [] :: rat json)"
    by (simp add: carried_over_def dict_get_def)
  have pb: "py_str example_lib (dict_get [(''longName'', JStr ''TSMC''), (''priceToBook'', JNum 7)]
              ''priceToBook'' (JStr ''-'')) = ''7.0''"
    by (simp add: py_str_def dict_get_def example_lib_def)
  have now: "now_text example_env = ''2024-11-30 09:00''"
    by (simp add: example_env_def)
  show ?thesis
    unfolding merge_record_eq [OF g g g g g g example_change g g g g g example_info g g g]
    by (simp only: c1 c2 pb now example_price example_new_record_def list.map)
qed

lemma example_target_new: "py_replace ''.TW'' [] ''2454.TW'' = ''2454''"
  by code_simp

lemma example_run_new:
  "get_stock_data example_lib None models example_env ''2454.TW''
     (Some [(''category'', JStr new_category)]) = (Some example_new_record, [])"
  by (simp add: get_stock_data_def Let_def example_target_new example_quote example_not_zero
        example_chart ai_analysis_def key_set_def example_merge_new)

lemma failing_quote: "quote_facts example_lib failing_env = (PyZero, ''0%'')"
  by (simp add: quote_facts_def failing_env_def)

lemma example_current: "get_current_list example_lib (Some example_data_json) = example_data"
  by code_simp

lemma example_items:
  "old_items example_data =
     Some [(''2330'', example_old), (''2317'', [(''id'', JStr ''2317''), (''category'', JStr ''watch'')])]"
  by (simp add: example_data_def example_old_def)

lemma example_add: "py_upper (py_strip '' 2454.tw'') = ''2454.TW''"
  by code_simp

section \<open>The river chart\<close>





section \<open>Category and memo\<close>

lemma record_category_memo:
  assumes "fst (get_stock_data lib key models env target_id old_data) = Some r"
  shows "json_path r [''category''] = Some (carried_over old_data ''category'' (JStr new_category))"
    and "json_path r [''memo''] = Some (carried_over old_data ''memo'' (JStr []))"
proof -
  from get_stock_data_Some [OF assms] obtain price change_pct hist name ai_res model_used where
    mr: "merge_record lib env (py_replace ''.TW'' [] target_id) name old_data price change_pct
               (chart_dates_of hist) (chart_prices_of lib hist) ai_res model_used = Some r"
    by blast
  from merge_record_Some [OF mr]
  show "json_path r [''category''] = Some (carried_over old_data ''category'' (JStr new_category))"
    and "json_path r [''memo''] = Some (carried_over old_data ''memo'' (JStr []))"
    by auto
qed

lemma add_target_new:
  assumes "a \<noteq> []" "py_upper (py_strip a) \<notin> set (map fst old_map)"
  shows "map_of (snd (add_target (Some a) old_map)) (py_upper (py_strip a))
           = Some [(''category'', JStr new_category)]"
  using assms by (simp add: add_target_def Let_def update_conv')

text \<open>
  C6. In every merged record, category and memo are those of the previous record handed
  to \<^verbatim>\<open>get_stock_data\<close>, whatever the AI answered; a field the previous record lacks, and
  every field when there is no previous record, takes its default: the category of a new
  id (U+65B0 U+52A0 U+5165) and the empty memo. For an id added by the flag, the run
  hands over the dict that holds only this category, so the record of a new id has this
  category and an empty memo.
\<close>

theorem category_memo_carried_over:
  "(fst (get_stock_data lib key models env target_id old_data) = Some r \<longrightarrow>
      (\<forall>d c. old_data = Some d \<and> map_of d ''category'' = Some c \<longrightarrow>
             json_path r [''category''] = Some c) \<and>
      (\<forall>d m. old_data = Some d \<and> map_of d ''memo'' = Some m \<longrightarrow>
             json_path r [''memo''] = Some m) \<and>
      (\<forall>d. old_data = Some d \<and> map_of d ''category'' = None \<longrightarrow>
             json_path r [''category''] = Some (JStr new_category)) \<and>
      (\<forall>d. old_data = Some d \<and> map_of d ''memo'' = None \<longrightarrow>
             json_path r [''memo''] = Some (JStr [])) \<and>
      (old_data = None \<longrightarrow>
         json_path r [''category''] = Some (JStr new_category) \<and>
         json_path r [''memo''] = Some (JStr []))) \<and>
   (a \<noteq> [] \<and> py_upper (py_strip a) \<notin> set (map fst old_map) \<longrightarrow>
      map_of (snd (add_target (Some a) old_map)) (py_upper (py_strip a))
        = Some [(''category'', JStr new_category)]) \<and>
   new_category =
     [CHR 0xE6, CHR 0x96, CHR 0xB0, CHR 0xE5, CHR 0x8A, CHR 0xA0, CHR 0xE5, CHR 0x85, CHR 0xA5]"
proof (intro conjI impI allI)
  fix d c
  assume some: "fst (get_stock_data lib key models env target_id old_data) = Some r"
    and "old_data = Some d \<and> map_of d ''category'' = Some c"
  then show "json_path r [''category''] = Some c"
    using record_category_memo(1) [OF some] by (auto simp: carried_over_def dict_get_def)
next
  fix d m
  assume some: "fst (get_stock_data lib key models env target_id old_data) = Some r"
    and "old_data = Some d \<and> map_of d ''memo'' = Some m"
  then show "json_path r [''memo''] = Some m"
    using record_category_memo(2) [OF some] by (auto simp: carried_over_def dict_get_def)
next
  fix d
  assume some: "fst (get_stock_data lib key models env target_id old_data) = Some r"
    and "old_data = Some d \<and> map_of d ''category'' = None"
  then show "json_path r [''category''] = Some (JStr new_category)"
    using record_category_memo(1) [OF some] by (auto simp: carried_over_def dict_get_def)
next
  fix d
  assume some: "fst (get_stock_data lib key models env target_id old_data) = Some r"
    and "old_data = Some d \<and> map_of d ''memo'' = None"
  then show "json_path r [''memo''] = Some (JStr [])"
    using record_category_memo(2) [OF some] by (auto simp: carried_over_def dict_get_def)
next
  assume some: "fst (get_stock_data lib key models env target_id old_data) = Some r"
    and "old_data = None"
  then show "json_path r [''category''] = Some (JStr new_category)"
    using record_category_memo(1) [OF some] by (simp add: carried_over_def)
next
  assume some: "fst (get_stock_data lib key models env target_id old_data) = Some r"
    and "old_data = None"
  then show "json_path r [''memo''] = Some (JStr [])"
    using record_category_memo(2) [OF some] by (simp add: carried_over_def)
next
  assume "a \<noteq> [] \<and> py_upper (py_strip a) \<notin> set (map fst old_map)"
  then show "map_of (snd (add_target (Some a) old_map)) (py_upper (py_strip a))
        = Some [(''category'', JStr new_category)]"
    using add_target_new by blast
next
  show "new_category =
     [CHR 0xE6, CHR 0x96, CHR 0xB0, CHR 0xE5, CHR 0x8A, CHR 0xA0, CHR 0xE5, CHR 0x85, CHR 0xA5]"
    by (simp add: new_category_def)
qed

theorem category_memo_carried_over_witness:
  "\<exists>r. fst (get_stock_data example_lib (Some ''key'') example_models example_env ''2330.TW''
              (Some example_old)) = Some r \<and>
       json_path example_answer [''memo''] = Some (JStr ''sell'') \<and>
       json_path example_answer [''category''] = Some (JStr ''junk'') \<and>
       json_path r [''category''] = Some (JStr ''core holding'') \<and>
       json_path r [''memo''] = Some (JStr ''watch for earnings'')"
proof -
  from example_run obtain prompt where
    "get_stock_data example_lib (Some ''key'') example_models example_env ''2330.TW''
       (Some example_old) =
     (Some example_record,
      [(''models/gemini-exp-1206'', prompt), (''models/gemini-2.0-pro'', prompt),
       (''models/gemini-1.5-flash'', prompt)])"
    by blast
  then have some: "fst (get_stock_data example_lib (Some ''key'') example_models example_env
      ''2330.TW'' (Some example_old)) = Some example_record"
    by simp
  have c: "map_of example_old ''category'' = Some (JStr ''core holding'')"
    and m: "map_of example_old ''memo'' = Some (JStr ''watch for earnings'')"
    by (simp_all add: example_old_def)
  note inst = category_memo_carried_over [where lib = example_lib and key = "Some ''key''"
      and models = example_models and env = example_env and target_id = "''2330.TW''"
      and old_data = "Some example_old" and r = example_record, THEN conjunct1, THEN mp, OF some]
  from inst c have cat: "json_path example_record [''category''] = Some (JStr ''core holding'')"
    by blast
  from inst m have memo: "json_path example_record [''memo''] = Some (JStr ''watch for earnings'')"
    by blast
  have own: "json_path example_answer [''memo''] = Some (JStr ''sell'')"
    "json_path example_answer [''category''] = Some (JStr ''junk'')"
    by (simp_all add: example_answer_def)
  from some own cat memo show ?thesis by blast
qed

section \<open>Properties of the run\<close>

lemma update_fresh: "k \<notin> fst ` set m \<Longrightarrow> AList.update k v m = m @ [(k, v)]"
  by (induction m) auto

lemma foldl_update_distinct:
  "distinct (map fst m @ map fst items)
   \<Longrightarrow> foldl (\<lambda>m (k, d). AList.update k d m) m items = m @ items"
proof (induction items arbitrary: m)
  case Nil
  then show ?case by simp
next
  case (Cons x items)
  obtain k d where x: "x = (k, d)" by (cases x)
  have fresh: "k \<notin> fst ` set m" using Cons.prems x by auto
  have "distinct (map fst (m @ [(k, d)]) @ map fst items)"
    using Cons.prems x by auto
  from Cons.IH [OF this] show ?case
    by (simp add: x update_fresh [OF fresh])
qed

lemma old_map_of_distinct: "distinct (map fst items) \<Longrightarrow> old_map_of items = items"
  using foldl_update_distinct [of "[]" items] by (simp add: old_map_of_def)

lemma foldl_update_keys:
  "set (map fst (foldl (\<lambda>m (k, d). AList.update k d m) m items))
     = set (map fst m) \<union> set (map fst items) \<and>
   (distinct (map fst m) \<longrightarrow>
      distinct (map fst (foldl (\<lambda>m (k, d). AList.update k d m) m items)))"
proof (induction items arbitrary: m)
  case Nil
  show ?case by simp
next
  case (Cons x items)
  obtain k d where x: "x = (k, d)" by (cases x)
  show ?case
    using Cons.IH [of "AList.update k d m"]
    by (auto simp: x dom_update distinct_update image_iff)
qed

lemma process_target_length:
  "length (process_target lib key models env old_map sid) \<le> 1"
  by (simp add: process_target_def Let_def split: option.splits)

lemma add_target_cases:
  "fst (add_target add old_map) =
     (case add of
        None \<Rightarrow> map fst old_map
      | Some a \<Rightarrow>
          if a \<noteq> [] \<and> py_upper (py_strip a) \<notin> set (map fst old_map)
          then py_upper (py_strip a) # map fst old_map
          else map fst old_map)"
  by (simp add: add_target_def Let_def split: option.splits)

lemma main_Some:
  "main lib key listing world data_json add = Some final \<Longrightarrow>
   \<exists>items. old_items (get_current_list lib data_json) = Some items \<and>
     final = concat (map (\<lambda>sid. process_target lib key (get_best_models listing) (world sid)
                                   (snd (add_target add (old_map_of items))) sid)
                         (fst (add_target add (old_map_of items))))"
  by (auto simp: main_def Let_def split: option.splits prod.splits)

text \<open>
  C7. The targets are the ids of the previous records in their order (each id once, at
  the place of its first occurrence), with the added id in front when the flag is given,
  is not empty and its stripped, upper-cased value is not among these ids. The output of
  the run is obtained by going through the targets in this order, each target giving at
  most one record.
\<close>

theorem target_order:
  "(distinct (map fst items) \<longrightarrow> map fst (old_map_of items) = map fst items) \<and>
   distinct (map fst (old_map_of items)) \<and>
   set (map fst (old_map_of items)) = set (map fst items) \<and>
   fst (add_target None old_map) = map fst old_map \<and>
   fst (add_target (Some a) old_map) =
     (if a \<noteq> [] \<and> py_upper (py_strip a) \<notin> set (map fst old_map)
      then py_upper (py_strip a) # map fst old_map
      else map fst old_map) \<and>
   (main lib key listing world data_json add = Some final \<longrightarrow>
      (\<exists>items'. old_items (get_current_list lib data_json) = Some items' \<and>
         final = concat (map (\<lambda>sid. process_target lib key (get_best_models listing) (world sid)
                                       (snd (add_target add (old_map_of items'))) sid)
                             (fst (add_target add (old_map_of items')))))) \<and>
   length (process_target lib key models env old_map sid) \<le> 1"
proof (intro conjI impI)
  assume "distinct (map fst items)"
  then show "map fst (old_map_of items) = map fst items"
    by (simp add: old_map_of_distinct)
next
  show "distinct (map fst (old_map_of items))"
    using foldl_update_keys [of "[]" items] by (simp add: old_map_of_def)
next
  show "set (map fst (old_map_of items)) = set (map fst items)"
    using foldl_update_keys [of "[]" items] by (simp add: old_map_of_def)
next
  show "fst (add_target None old_map) = map fst old_map"
    by (simp add: add_target_cases)
next
  show "fst (add_target (Some a) old_map) =
     (if a \<noteq> [] \<and> py_upper (py_strip a) \<notin> set (map fst old_map)
      then py_upper (py_strip a) # map fst old_map
      else map fst old_map)"
    by (simp add: add_target_cases)
next
  assume "main lib key listing world data_json add = Some final"
  then show "\<exists>items'. old_items (get_current_list lib data_json) = Some items' \<and>
         final = concat (map (\<lambda>sid. process_target lib key (get_best_models listing) (world sid)
                                       (snd (add_target add (old_map_of items'))) sid)
                             (fst (add_target add (old_map_of items'))))"
    by (rule main_Some)
next
  show "length (process_target lib key models env old_map sid) \<le> 1"
    by (rule process_target_length)
qed

lemma example_abc:
  "py_upper (py_strip ''d'') = ''D''"
  "distinct (map fst [(''A'', [(''id'', JStr ''A'' :: rat json)]), (''B'', [(''id'', JStr ''B'')]),
                      (''C'', [(''id'', JStr ''C'')])])"
  by (code_simp, simp)

theorem target_order_witness:
  "fst (add_target (Some ''d'')
          (old_map_of [(''A'', [(''id'', JStr ''A'' :: rat json)]), (''B'', [(''id'', JStr ''B'')]),
                       (''C'', [(''id'', JStr ''C'')])])) = [''D'', ''A'', ''B'', ''C'']"
proof -
  let ?items = "[(''A'', [(''id'', JStr ''A'' :: rat json)]), (''B'', [(''id'', JStr ''B'')]),
                 (''C'', [(''id'', JStr ''C'')])]"
  note inst = target_order [where items = ?items and old_map = "old_map_of ?items" and a = "''d''"]
  from inst example_abc(2) have ids: "map fst (old_map_of ?items) = map fst ?items"
    by blast
  from inst have "fst (add_target (Some ''d'') (old_map_of ?items)) =
     (if ''d'' \<noteq> [] \<and> py_upper (py_strip ''d'') \<notin> set (map fst (old_map_of ?items))
      then py_upper (py_strip ''d'') # map fst (old_map_of ?items)
      else map fst (old_map_of ?items))"
    by blast
  then show ?thesis
    by (simp add: ids example_abc(1))
qed

section \<open>Total failure\<close>

lemma total_failure_None:
  "is_zero lib (fst (quote_facts lib env))
   \<Longrightarrow> fst (get_stock_data lib key models env target_id old_data) = None"
  by (cases "quote_facts lib env") (simp add: get_stock_data_def Let_def)

lemma old_items_shape:
  "old_items current = Some items \<Longrightarrow>
     current = map (\<lambda>kd. JObj (snd kd)) items \<and>
     list_all (\<lambda>kd. map_of (snd kd) ''id'' = Some (JStr (fst kd))) items"
proof (induction current arbitrary: items)
  case Nil
  then show ?case by simp
next
  case (Cons item rest)
  then show ?case
    by (auto split: json.splits option.splits)
qed

lemma add_target_keeps:
  "sid \<in> set (map fst old_map) \<Longrightarrow> map_of (snd (add_target add old_map)) sid = map_of old_map sid"
  by (force simp: add_target_def Let_def update_conv' split: option.splits)

text \<open>
  C2. A zero price after the quote fallback makes \<^verbatim>\<open>get_stock_data\<close> return
  \<^verbatim>\<open>None\<close>. Whenever it returns \<^verbatim>\<open>None\<close>, the loop appends the previous record of
  that id, unchanged, when this record has a \<open>name\<close> field, and appends nothing
  otherwise. The previous record is the item of \<^verbatim>\<open>data.json\<close> with that id (ids being
  distinct), also after an id has been added; for an added id the record at hand is the
  dict that holds only a category, so at a total failure a newly added ticker is absent
  from the output.
\<close>

theorem total_failure_fallback:
  "(is_zero lib (fst (quote_facts lib env)) \<longrightarrow>
      fst (get_stock_data lib key models env sid old_data) = None) \<and>
   (fst (get_stock_data lib key models env sid (map_of old_map sid)) = None \<longrightarrow>
      process_target lib key models env old_map sid =
        (case map_of old_map sid of
           Some d \<Rightarrow> if ''name'' \<in> set (map fst d) then [JObj d] else []
         | None \<Rightarrow> [])) \<and>
   (old_items current = Some items \<longrightarrow>
      current = map (\<lambda>kd. JObj (snd kd)) items \<and>
      list_all (\<lambda>kd. map_of (snd kd) ''id'' = Some (JStr (fst kd))) items) \<and>
   (distinct (map fst items) \<longrightarrow> old_map_of items = items) \<and>
   (sid \<in> set (map fst old_map) \<longrightarrow>
      map_of (snd (add_target add old_map)) sid = map_of old_map sid) \<and>
   (a \<noteq> [] \<and> py_upper (py_strip a) \<notin> set (map fst old_map) \<and>
    is_zero lib (fst (quote_facts lib env')) \<longrightarrow>
      process_target lib key models env' (snd (add_target (Some a) old_map))
        (py_upper (py_strip a)) = [])"
proof (intro conjI impI)
  assume "is_zero lib (fst (quote_facts lib env))"
  then show "fst (get_stock_data lib key models env sid old_data) = None"
    by (rule total_failure_None)
next
  assume "fst (get_stock_data lib key models env sid (map_of old_map sid)) = None"
  then show "process_target lib key models env old_map sid =
        (case map_of old_map sid of
           Some d \<Rightarrow> if ''name'' \<in> set (map fst d) then [JObj d] else []
         | None \<Rightarrow> [])"
    by (simp add: process_target_def Let_def)
next
  assume "old_items current = Some items"
  then show "current = map (\<lambda>kd. JObj (snd kd)) items"
    and "list_all (\<lambda>kd. map_of (snd kd) ''id'' = Some (JStr (fst kd))) items"
    using old_items_shape by blast+
next
  assume "distinct (map fst items)"
  then show "old_map_of items = items" by (rule old_map_of_distinct)
next
  assume "sid \<in> set (map fst old_map)"
  then show "map_of (snd (add_target add old_map)) sid = map_of old_map sid"
    by (rule add_target_keeps)
next
  assume a: "a \<noteq> [] \<and> py_upper (py_strip a) \<notin> set (map fst old_map) \<and>
    is_zero lib (fst (quote_facts lib env'))"
  then have old: "map_of (snd (add_target (Some a) old_map)) (py_upper (py_strip a))
           = Some [(''category'', JStr new_category)]"
    using add_target_new by blast
  from a have "fst (get_stock_data lib key models env' (py_upper (py_strip a))
      (map_of (snd (add_target (Some a) old_map)) (py_upper (py_strip a)))) = None"
    by (intro total_failure_None) simp
  then show "process_target lib key models env' (snd (add_target (Some a) old_map))
        (py_upper (py_strip a)) = []"
    by (simp add: process_target_def Let_def old)
qed

lemma example_old_map:
  "old_map_of [(''2330'', example_old),
               (''2317'', [(''id'', JStr ''2317''), (''category'', JStr ''watch'')])] =
     [(''2330'', example_old), (''2317'', [(''id'', JStr ''2317''), (''category'', JStr ''watch'')])]"
  by (rule old_map_of_distinct) simp

theorem total_failure_fallback_witness:
  "is_zero example_lib (fst (quote_facts example_lib failing_env)) \<and>
   process_target example_lib None example_models failing_env
     [(''2330'', example_old), (''2317'', [(''id'', JStr ''2317''), (''category'', JStr ''watch'')])]
     ''2330'' = [JObj example_old] \<and>
   process_target example_lib None example_models failing_env
     [(''2330'', example_old), (''2317'', [(''id'', JStr ''2317''), (''category'', JStr ''watch'')])]
     ''2317'' = []"
proof -
  let ?m = "[(''2330'', example_old),
             (''2317'', [(''id'', JStr ''2317''), (''category'', JStr ''watch'' :: rat json)])]"
  have z: "is_zero example_lib (fst (quote_facts example_lib failing_env))"
    by (simp add: failing_quote is_zero_def)
  have n1: "fst (get_stock_data example_lib None example_models failing_env ''2330''
              (map_of ?m ''2330'')) = None"
    using total_failure_fallback [where lib = example_lib and env = failing_env] z by blast
  have n2: "fst (get_stock_data example_lib None example_models failing_env ''2317''
              (map_of ?m ''2317'')) = None"
    using total_failure_fallback [where lib = example_lib and env = failing_env] z by blast
  have p1: "process_target example_lib None example_models failing_env ?m ''2330'' =
        (case map_of ?m ''2330'' of
           Some d \<Rightarrow> if ''name'' \<in> set (map fst d) then [JObj d] else []
         | None \<Rightarrow> [])"
    using total_failure_fallback [where lib = example_lib and env = failing_env
        and key = None and models = example_models and old_map = ?m and sid = "''2330''"] n1
    by blast
  have p2: "process_target example_lib None example_models failing_env ?m ''2317'' =
        (case map_of ?m ''2317'' of
           Some d \<Rightarrow> if ''name'' \<in> set (map fst d) then [JObj d] else []
         | None \<Rightarrow> [])"
    using total_failure_fallback [where lib = example_lib and env = failing_env
        and key = None and models = example_models and old_map = ?m and sid = "''2317''"] n2
    by blast
  have e1: "(case map_of ?m ''2330'' of
           Some d \<Rightarrow> if ''name'' \<in> set (map fst d) then [JObj d] else []
         | None \<Rightarrow> []) = [JObj example_old]"
    by (simp add: example_old_def)
  have e2: "(case map_of ?m ''2317'' of
           Some d \<Rightarrow> if ''name'' \<in> set (map fst d) then [JObj d] else []
         | None \<Rightarrow> []) = ([] :: rat json list)"
    by simp
  from z p1 p2 e1 e2 show ?thesis by simp
qed

end
